theory Spec2Isabelle
  imports Complex_Main
begin

section \<open>Python values, exceptions and name lookup\<close>

text \<open>
  The repository is Python on top of an external tensor framework. Every exception the
  source can raise is a value of \<open>error\<close>; a computation that may raise returns
  \<open>error + 'a\<close> with \<open>Inl\<close> for the exception. Python floats are idealised as reals.
\<close>

datatype error =
    AttributeError string
  | ModuleNotFoundError string
  | ImportError string
  | TypeError string
  | RuntimeError string
  | ValueError string
  | UnboundLocalError string
  | ZeroDivisionError
  | IndexError
  | AssertionError
  | FileNotFoundError string
  | FileExistsError string
  | NotADirectoryError string
  | IsADirectoryError string

definition bindE :: "error + 'a \<Rightarrow> ('a \<Rightarrow> error + 'b) \<Rightarrow> error + 'b" where
  "bindE m f = (case m of Inl e \<Rightarrow> Inl e | Inr x \<Rightarrow> f x)"

datatype pyval =
    VNone
  | VBool bool
  | VInt int
  | VReal real
  | VStr string
  | VList "pyval list"
  | VBuiltin string

section \<open>Loading \<open>model/layers.py\<close>\<close>

text \<open>
  A module body runs top to bottom. \<open>import a.b.c\<close> loads \<open>a\<close>, \<open>a.b\<close> and
  \<open>a.b.c\<close> in this order and raises ModuleNotFoundError at the first that is not
  installed (module names are case-sensitive). The installed modules belong to the
  environment and are a parameter.
\<close>

fun import_dotted :: "string list \<Rightarrow> string list \<Rightarrow> error + unit" where
  "import_dotted installed [] = Inr ()"
| "import_dotted installed (m # ms) =
     (if m \<in> set installed then import_dotted installed ms
      else Inl (ModuleNotFoundError m))"

datatype binding =
    Module string
  | Function string
  | Class string
  | Str string

definition py_call0 :: "binding \<Rightarrow> error + binding" where
  \<comment> \<open>calling a global with no arguments; only what the module body needs\<close>
  "py_call0 b =
     (case b of
        Str s \<Rightarrow> Inl (TypeError ''str object is not callable'')
      | Module m \<Rightarrow> Inl (TypeError ''module object is not callable'')
      | Function f \<Rightarrow> Inr (Str ''None'')
      | Class c \<Rightarrow> Inl (TypeError ''missing required positional argument''))"

definition layers_classes :: "string list" where
  "layers_classes =
     [''CharacterRepresentationEncoder'', ''WordRepresentationLayer'',
      ''ContextRepresentationLayer'', ''MatchingLayer'', ''AggregationLayer'',
      ''PredictionLayer'']"

definition layers_module :: "string list \<Rightarrow> string \<Rightarrow> error + (string \<times> binding) list" where
  \<comment> \<open>lines 1-4: the imports; 7-128: one def and six class statements;
      131: \<open>if __name__() == "__main__"\<close>\<close>
  "layers_module installed name =
     bindE (import_dotted installed [''torch'']) (\<lambda>_.
     bindE (import_dotted installed [''torch'', ''torch.nn'']) (\<lambda>_.
     bindE (import_dotted installed [''torch'', ''torch.nn'', ''torch.nn.Functional'']) (\<lambda>_.
     bindE (import_dotted installed [''plac'']) (\<lambda>_.
       let globals =
             [(''__name__'', Str name), (''torch'', Module ''torch''),
              (''nn'', Module ''torch.nn''), (''F'', Module ''torch.nn.Functional''),
              (''plac'', Module ''plac''), (''main'', Function ''main'')]
             @ map (\<lambda>c. (c, Class c)) layers_classes
       in bindE (py_call0 (Str name)) (\<lambda>r.
            if r = Str ''__main__'' then bindE (py_call0 (Function ''main'')) (\<lambda>_. Inr globals)
            else Inr globals)))))"

definition import_from_layers :: "string list \<Rightarrow> string \<Rightarrow> error + binding" where
  \<comment> \<open>\<open>from model.layers import cls\<close>, as a user of a layer class must do first\<close>
  "import_from_layers installed cls =
     bindE (layers_module installed ''model.layers'') (\<lambda>globals.
       case map_of globals cls of
         None \<Rightarrow> Inl (ImportError cls)
       | Some b \<Rightarrow> Inr b)"

section \<open>Configuration objects\<close>

text \<open>
  \<open>locals()\<close> is a dict; a namedtuple instance or an \<open>Args\<close> object is read by
  attribute. A dict has only its built-in methods as attributes; its keys are reached
  by subscription.
\<close>

datatype pyobj =
    Dict "(string \<times> pyval) list"
  | Object "(string \<times> pyval) list"

definition dict_attrs :: "string list" where
  "dict_attrs =
     [''clear'', ''copy'', ''fromkeys'', ''get'', ''items'', ''keys'', ''pop'', ''popitem'',
      ''setdefault'', ''update'', ''values'']"

definition getattr :: "pyobj \<Rightarrow> string \<Rightarrow> error + pyval" where
  "getattr obj name =
     (case obj of
        Dict kvs \<Rightarrow>
          if name \<in> set dict_attrs then Inr (VBuiltin name) else Inl (AttributeError name)
      | Object kvs \<Rightarrow>
          (case map_of kvs name of
             Some v \<Rightarrow> Inr v
           | None \<Rightarrow> Inl (AttributeError name)))"

definition setitem :: "pyobj \<Rightarrow> string \<Rightarrow> pyval \<Rightarrow> error + pyobj" where
  "setitem obj k v =
     (case obj of
        Dict kvs \<Rightarrow>
          Inr (Dict (if k \<in> fst ` set kvs
                     then map (\<lambda>kv. if fst kv = k then (k, v) else kv) kvs
                     else kvs @ [(k, v)]))
      | Object kvs \<Rightarrow> Inl (TypeError ''object does not support item assignment''))"

definition namedtuple_of :: "pyobj \<Rightarrow> error + pyobj" where
  \<comment> \<open>\<open>namedtuple('args', args.keys())(*args.values())\<close>\<close>
  "namedtuple_of obj =
     (case obj of
        Dict kvs \<Rightarrow> Inr (Object kvs)
      | Object kvs \<Rightarrow> Inl (AttributeError ''keys''))"

definition get_nat :: "pyobj \<Rightarrow> string \<Rightarrow> error + nat" where
  \<comment> \<open>an attribute used as a size\<close>
  "get_nat args name =
     bindE (getattr args name) (\<lambda>v.
       case v of
         VInt i \<Rightarrow> if 0 \<le> i then Inr (nat i) else Inl (RuntimeError name)
       | _ \<Rightarrow> Inl (TypeError name))"

definition get_real :: "pyobj \<Rightarrow> string \<Rightarrow> error + real" where
  "get_real args name =
     bindE (getattr args name) (\<lambda>v.
       case v of
         VReal r \<Rightarrow> Inr r
       | VInt i \<Rightarrow> Inr (real_of_int i)
       | _ \<Rightarrow> Inl (TypeError name))"

section \<open>Tensors and the framework's primitives\<close>

text \<open>
  A tensor is its shape and its elements in row-major order. The primitives below are
  the framework's (embedding lookup, recurrent layer, linear layer, the functional
  namespace); their arithmetic on trained weights is a parameter, their shapes and
  their error conditions are written out.
\<close>

record 'a tensor =
  shape :: "nat list"
  elems :: "'a list"

definition rows_of :: "nat \<Rightarrow> nat \<Rightarrow> 'a list \<Rightarrow> 'a list list" where
  \<comment> \<open>the first \<open>n\<close> consecutive blocks of width \<open>d\<close>\<close>
  "rows_of n d xs = map (\<lambda>i. take d (drop (i * d) xs)) [0..<n]"

definition size3 :: "'a tensor \<Rightarrow> error + nat \<times> nat \<times> nat" where
  \<comment> \<open>\<open>a, b, c = t.size()\<close>\<close>
  "size3 t =
     (case shape t of
        [a, b, c] \<Rightarrow> Inr (a, b, c)
      | _ \<Rightarrow> Inl (ValueError ''wrong number of values to unpack''))"

definition view :: "'a tensor \<Rightarrow> int list \<Rightarrow> error + 'a tensor" where
  \<comment> \<open>\<open>t.view(dims)\<close>; one dimension may be \<open>-1\<close> and is then inferred\<close>
  "view t dims =
     (let n = length (elems t);
          p = prod_list (map nat (filter (\<lambda>d. d \<noteq> -1) dims))
      in if (\<exists>d \<in> set dims. d < -1) \<or> 1 < length (filter (\<lambda>d. d = -1) dims)
         then Inl (RuntimeError ''invalid shape dimension'')
         else if -1 \<in> set dims
         then (if p = 0 \<or> n mod p \<noteq> 0
               then Inl (RuntimeError ''shape is invalid for input size'')
               else Inr (t\<lparr>shape := map (\<lambda>d. if d = -1 then n div p else nat d) dims\<rparr>))
         else if p = n then Inr (t\<lparr>shape := map nat dims\<rparr>)
         else Inl (RuntimeError ''shape is invalid for input size''))"

definition cat_last :: "'a tensor \<Rightarrow> 'a tensor \<Rightarrow> error + 'a tensor" where
  \<comment> \<open>\<open>torch.cat([a, b], dim=-1)\<close>\<close>
  "cat_last a b =
     (if shape a = [] \<or> shape b = [] \<or> butlast (shape a) \<noteq> butlast (shape b)
      then Inl (RuntimeError ''sizes of tensors must match except in the cat dimension'')
      else let n = prod_list (butlast (shape a));
               da = last (shape a); db = last (shape b)
           in Inr \<lparr>shape = butlast (shape a) @ [da + db],
                   elems = concat (map (\<lambda>i. take da (drop (i * da) (elems a))
                                            @ take db (drop (i * db) (elems b))) [0..<n])\<rparr>)"

record embedding =
  num_embeddings :: nat
  embedding_dim :: nat
  padding_idx :: "nat option"
  weight :: "real list list"
  weight_requires_grad :: bool

definition nn_Embedding ::
  "(nat \<Rightarrow> nat \<Rightarrow> real) \<Rightarrow> nat \<Rightarrow> nat \<Rightarrow> nat option \<Rightarrow> error + embedding" where
  \<comment> \<open>\<open>init\<close> is the random initial table; the padding row is zeroed\<close>
  "nn_Embedding init n d pad =
     (if (case pad of Some p \<Rightarrow> n \<le> p | None \<Rightarrow> False) then Inl AssertionError
      else Inr \<lparr>num_embeddings = n, embedding_dim = d, padding_idx = pad,
                weight = map (\<lambda>i. if pad = Some i then replicate d 0
                                   else map (init i) [0..<d]) [0..<n],
                weight_requires_grad = True\<rparr>)"

definition embedding_forward :: "embedding \<Rightarrow> int tensor \<Rightarrow> error + real tensor" where
  "embedding_forward e ids =
     (if \<forall>i \<in> set (elems ids). 0 \<le> i \<and> i < int (num_embeddings e)
      then Inr \<lparr>shape = shape ids @ [embedding_dim e],
                elems = concat (map (\<lambda>i. weight e ! nat i) (elems ids))\<rparr>
      else Inl IndexError)"

definition embedding_weight_grad :: "embedding \<Rightarrow> int list \<Rightarrow> real list list \<Rightarrow> real list list" where
  \<comment> \<open>the gradient the lookup passes to the table: row \<open>r\<close> collects the incoming
      gradients of the positions holding id \<open>r\<close>; the padding row collects none\<close>
  "embedding_weight_grad e ids gs =
     map (\<lambda>r. if padding_idx e = Some r then replicate (embedding_dim e) 0
              else map (\<lambda>j. sum_list (map (\<lambda>(i, g). if i = int r then g ! j else 0) (zip ids gs)))
                       [0..<embedding_dim e])
         [0..<num_embeddings e]"

type_synonym cell = "real list \<Rightarrow> real list \<times> real list \<Rightarrow> real list \<times> real list"

record lstm =
  lstm_input_size :: nat
  lstm_hidden_size :: nat
  lstm_bidirectional :: bool
  lstm_cell :: cell
  lstm_cell_reverse :: cell

definition nn_LSTM :: "cell \<Rightarrow> cell \<Rightarrow> nat \<Rightarrow> nat \<Rightarrow> bool \<Rightarrow> lstm" where
  \<comment> \<open>every call site passes \<open>num_layers=1, batch_first=True\<close>; the cells carry the
      layer's weights\<close>
  "nn_LSTM c cr i h bidir =
     \<lparr>lstm_input_size = i, lstm_hidden_size = h, lstm_bidirectional = bidir,
      lstm_cell = c, lstm_cell_reverse = cr\<rparr>"

definition cell_keeps_size :: "cell \<Rightarrow> nat \<Rightarrow> bool" where
  \<comment> \<open>a recurrent cell of hidden size \<open>h\<close> maps states of that size to states of that size\<close>
  "cell_keeps_size c h =
     (\<forall>x s. length (fst s) = h \<and> length (snd s) = h
        \<longrightarrow> length (fst (c x s)) = h \<and> length (snd (c x s)) = h)"

fun lstm_states :: "cell \<Rightarrow> real list \<times> real list \<Rightarrow> real list list \<Rightarrow> (real list \<times> real list) list" where
  "lstm_states c s [] = []"
| "lstm_states c s (x # xs) = (let s' = c x s in s' # lstm_states c s' xs)"

definition lstm_final :: "cell \<Rightarrow> real list \<times> real list \<Rightarrow> real list list \<Rightarrow> real list \<times> real list" where
  "lstm_final c s xs = foldl (\<lambda>s x. c x s) s xs"

definition lstm_forward :: "lstm \<Rightarrow> real tensor \<Rightarrow> error + real tensor \<times> real tensor \<times> real tensor" where
  \<comment> \<open>returns \<open>(output, (h_n, c_n))\<close> for a batch-first input \<open>(N, L, H_in)\<close>\<close>
  "lstm_forward l x =
     (case shape x of
        [n, len, h] \<Rightarrow>
          if h \<noteq> lstm_input_size l
          then Inl (RuntimeError ''input.size(-1) must be equal to input_size'')
          else if len = 0
          then Inl (RuntimeError ''expected sequence length to be larger than 0'')
          else
            let hid = lstm_hidden_size l;
                z = (replicate hid 0, replicate hid 0);
                bid = lstm_bidirectional l;
                seqs = map (\<lambda>i. map (\<lambda>t. take h (drop ((i * len + t) * h) (elems x))) [0..<len])
                           [0..<n];
                out = concat (map (\<lambda>sq.
                        concat (map (\<lambda>(f, b). fst f @ (if bid then fst b else []))
                          (zip (lstm_states (lstm_cell l) z sq)
                               (rev (lstm_states (lstm_cell_reverse l) z (rev sq)))))) seqs);
                fin = map (lstm_final (lstm_cell l) z) seqs;
                finr = (if bid then map (\<lambda>sq. lstm_final (lstm_cell_reverse l) z (rev sq)) seqs
                        else []);
                dirs = (if bid then 2 else 1)
            in Inr (\<lparr>shape = [n, len, dirs * hid], elems = out\<rparr>,
                    \<lparr>shape = [dirs, n, hid], elems = concat (map fst (fin @ finr))\<rparr>,
                    \<lparr>shape = [dirs, n, hid], elems = concat (map snd (fin @ finr))\<rparr>)
      | _ \<Rightarrow> Inl (RuntimeError ''input must have 3 dimensions''))"

definition permute102 :: "'a tensor \<Rightarrow> error + 'a tensor \<times> bool" where
  \<comment> \<open>\<open>t.permute(1, 0, 2)\<close>: the reordered tensor, and whether its memory layout is
      still contiguous (it is only when one of the two swapped sizes is at most 1)\<close>
  "permute102 t =
     (case shape t of
        [a, b, c] \<Rightarrow>
          Inr (\<lparr>shape = [b, a, c],
                elems = concat (map (\<lambda>j. concat (map (\<lambda>i. take c (drop ((i * b + j) * c) (elems t)))
                                                   [0..<a])) [0..<b])\<rparr>,
               a \<le> 1 \<or> b \<le> 1)
      | _ \<Rightarrow> Inl (RuntimeError ''number of dims does not match in permute''))"

record linear =
  in_features :: nat
  out_features :: nat
  lin_weight :: "real list list"
  lin_bias :: "real list"

definition nn_Linear :: "(nat \<Rightarrow> nat \<Rightarrow> real) \<Rightarrow> (nat \<Rightarrow> real) \<Rightarrow> nat \<Rightarrow> nat \<Rightarrow> linear" where
  "nn_Linear w0 b0 i out =
     \<lparr>in_features = i, out_features = out,
      lin_weight = map (\<lambda>r. map (w0 r) [0..<i]) [0..<out],
      lin_bias = map b0 [0..<out]\<rparr>"

definition linear_forward :: "linear \<Rightarrow> real tensor \<Rightarrow> error + real tensor" where
  "linear_forward l x =
     (if shape x = [] \<or> last (shape x) \<noteq> in_features l
      then Inl (RuntimeError ''size mismatch'')
      else Inr \<lparr>shape = butlast (shape x) @ [out_features l],
                elems = concat (map (\<lambda>row. map (\<lambda>(w, b). sum_list (map (\<lambda>(a, v). a * v) (zip w row)) + b)
                                              (zip (lin_weight l) (lin_bias l)))
                                    (rows_of (prod_list (butlast (shape x))) (in_features l) (elems x)))\<rparr>)"

datatype fn = Fn_dropout | Fn_relu | Fn_softmax

definition torch_nn_functional :: "(string \<times> fn) list" where
  \<comment> \<open>the functions of the framework's functional namespace that the layers name\<close>
  "torch_nn_functional =
     [(''dropout'', Fn_dropout), (''relu'', Fn_relu), (''softmax'', Fn_softmax)]"

definition module_getattr :: "(string \<times> fn) list \<Rightarrow> string \<Rightarrow> error + fn" where
  "module_getattr m name =
     (case map_of m name of
        Some f \<Rightarrow> Inr f
      | None \<Rightarrow> Inl (AttributeError name))"

definition F_dropout :: "(nat \<Rightarrow> bool) \<Rightarrow> real tensor \<Rightarrow> real \<Rightarrow> bool \<Rightarrow> error + real tensor" where
  \<comment> \<open>\<open>dmask i\<close> tells whether the random draw zeroes unit \<open>i\<close>\<close>
  "F_dropout dmask V p training =
     (if p < 0 \<or> 1 < p then Inl (ValueError ''dropout probability has to be between 0 and 1'')
      else if training
      then Inr (V\<lparr>elems := map (\<lambda>i. if dmask i then 0 else elems V ! i / (1 - p))
                               [0..<length (elems V)]\<rparr>)
      else Inr V)"

definition softmax_rows :: "real tensor \<Rightarrow> real tensor" where
  \<comment> \<open>normalisation along the last dimension, the implicit one for a 2-D input\<close>
  "softmax_rows x =
     (let d = (if shape x = [] then 1 else last (shape x))
      in x\<lparr>elems := concat (map (\<lambda>row. map (\<lambda>v. exp v / sum_list (map exp row)) row)
                                 (rows_of (prod_list (butlast (shape x))) d (elems x)))\<rparr>)"

definition call_dropout_like ::
  "(nat \<Rightarrow> bool) \<Rightarrow> fn \<Rightarrow> real tensor \<Rightarrow> real \<Rightarrow> bool \<Rightarrow> error + real tensor" where
  \<comment> \<open>\<open>f(V, p=p, training=training)\<close>\<close>
  "call_dropout_like dmask f V p training =
     (case f of
        Fn_dropout \<Rightarrow> F_dropout dmask V p training
      | _ \<Rightarrow> Inl (TypeError ''got an unexpected keyword argument p''))"

definition call_unary :: "(nat \<Rightarrow> bool) \<Rightarrow> fn \<Rightarrow> real tensor \<Rightarrow> error + real tensor" where
  \<comment> \<open>\<open>f(x)\<close>; \<open>dropout\<close> then has its defaults \<open>p=0.5, training=True\<close>\<close>
  "call_unary dmask f x =
     (case f of
        Fn_dropout \<Rightarrow> F_dropout dmask x (1 / 2) True
      | Fn_relu \<Rightarrow> Inr (x\<lparr>elems := map (max 0) (elems x)\<rparr>)
      | Fn_softmax \<Rightarrow> Inr (softmax_rows x))"

definition nn_Module_attrs :: "string list" where
  \<comment> \<open>what every instance inherits from the framework's module base class\<close>
  "nn_Module_attrs =
     [''training'', ''add_module'', ''apply'', ''children'', ''cpu'', ''cuda'', ''double'',
      ''eval'', ''float'', ''forward'', ''half'', ''load_state_dict'', ''modules'',
      ''named_children'', ''named_modules'', ''named_parameters'', ''parameters'',
      ''register_backward_hook'', ''register_buffer'', ''register_forward_hook'',
      ''register_forward_pre_hook'', ''register_parameter'', ''share_memory'',
      ''state_dict'', ''to'', ''train'', ''type'', ''zero_grad'', ''extra_repr'',
      ''dump_patches'']"

definition lookup_attr :: "string list \<Rightarrow> string \<Rightarrow> error + unit" where
  \<comment> \<open>\<open>self.name\<close> on a module instance whose own attributes and methods are \<open>own\<close>\<close>
  "lookup_attr own name =
     (if name \<in> set own \<or> name \<in> set nn_Module_attrs then Inr ()
      else Inl (AttributeError name))"

section \<open>The layers of \<open>model/layers.py\<close>\<close>

text \<open>
  Each class is a record of the attributes its \<open>__init__\<close> assigns, with the module's
  \<open>training\<close> flag where a method reads it. An attribute that a class never assigns is
  an optional field holding \<open>None\<close>. A name looked up on \<open>self\<close> is resolved against
  the class's own attributes and methods and the inherited ones; \<open>F\<close> is the module the
  global name \<open>F\<close> is bound to, and \<open>dmask\<close> the random draws of a dropout call.
\<close>

record 'b model_data =
  md_vectors :: "real list list"
  md_word_vocab :: nat
  md_char_vocab :: nat
  md_label_vocab :: nat
  md_max_word_len :: nat
  md_train_iter :: "'b list"
  md_valid_iter :: "'b list"
  md_test_iter :: "'b list"
  md_keep_training :: "nat \<Rightarrow> bool"
  md_batch :: 'b

record sentence =
  s_words :: "real tensor"
  s_chars :: "int tensor"

subsection \<open>CharacterRepresentationEncoder\<close>

record char_encoder =
  ce_args :: pyobj
  ce_char_encoder :: embedding
  ce_lstm :: lstm

definition CharacterRepresentationEncoder_init ::
  "(nat \<Rightarrow> nat \<Rightarrow> real) \<Rightarrow> cell \<Rightarrow> pyobj \<Rightarrow> error + char_encoder" where
  "CharacterRepresentationEncoder_init init c args =
     bindE (get_nat args ''char_vocab_size'') (\<lambda>v.
     bindE (get_nat args ''char_dim'') (\<lambda>d.
     bindE (nn_Embedding init v d (Some 0)) (\<lambda>emb.
     bindE (get_nat args ''char_input_size'') (\<lambda>i.
     bindE (get_nat args ''char_hidden_size'') (\<lambda>h.
       Inr \<lparr>ce_args = args, ce_char_encoder = emb,
            ce_lstm = nn_LSTM c c i h False\<rparr>)))))"

definition CharacterRepresentationEncoder_forward ::
  "char_encoder \<Rightarrow> int tensor \<Rightarrow> error + real tensor" where
  "CharacterRepresentationEncoder_forward self chars =
     bindE (size3 chars) (\<lambda>(batch_size, seq_len, max_word_len).
     bindE (view chars [int (batch_size * seq_len), int max_word_len]) (\<lambda>chars.
     bindE (embedding_forward (ce_char_encoder self) chars) (\<lambda>embedded.
     bindE (lstm_forward (ce_lstm self) embedded) (\<lambda>(output, h_n, c_n).
     bindE (get_nat (ce_args self) ''char_hidden_size'') (\<lambda>h.
       view h_n [-1, int seq_len, int h])))))"

subsection \<open>WordRepresentationLayer\<close>

record word_layer =
  wl_args :: pyobj
  wl_word_encoder :: embedding
  wl_char_encoder :: char_encoder
  wl_training :: bool



definition WordRepresentationLayer_attrs :: "string list" where
  "WordRepresentationLayer_attrs =
     [''args'', ''word_encoder'', ''char_encoder'', ''__init__'', ''droput'', ''forward'']"

definition WordRepresentationLayer_droput ::
  "(string \<times> fn) list \<Rightarrow> (nat \<Rightarrow> bool) \<Rightarrow> word_layer \<Rightarrow> real tensor \<Rightarrow> error + real tensor" where
  "WordRepresentationLayer_droput F dmask self V =
     bindE (module_getattr F ''droput'') (\<lambda>f.
     bindE (get_real (wl_args self) ''dropout'') (\<lambda>p.
       call_dropout_like dmask f V p (wl_training self)))"

definition WordRepresentationLayer_call ::
  "(string \<times> fn) list \<Rightarrow> (nat \<Rightarrow> bool) \<Rightarrow> string \<Rightarrow> word_layer \<Rightarrow> real tensor
     \<Rightarrow> error + real tensor" where
  \<comment> \<open>\<open>self.name(V)\<close> once \<open>name\<close> is found: \<open>droput\<close> is the one method taking a tensor\<close>
  "WordRepresentationLayer_call F dmask name self V =
     (if name = ''droput'' then WordRepresentationLayer_droput F dmask self V
      else Inl (TypeError name))"

definition WordRepresentationLayer_forward ::
  "(string \<times> fn) list \<Rightarrow> (nat \<Rightarrow> bool) \<Rightarrow> word_layer \<Rightarrow> sentence \<Rightarrow> error + real tensor" where
  "WordRepresentationLayer_forward F dmask self sentence =
     (let words = s_words sentence in
      bindE (CharacterRepresentationEncoder_forward (wl_char_encoder self) (s_chars sentence))
        (\<lambda>chars.
      bindE (cat_last words chars) (\<lambda>sentence.
      bindE (lookup_attr WordRepresentationLayer_attrs ''dropout'') (\<lambda>_.
        WordRepresentationLayer_call F dmask ''dropout'' self sentence))))"

subsection \<open>ContextRepresentationLayer\<close>

record context_layer =
  cl_args :: "pyobj option"
  cl_input_size :: nat
  cl_lstm :: lstm
  cl_training :: bool

definition ContextRepresentationLayer_init :: "cell \<Rightarrow> cell \<Rightarrow> pyobj \<Rightarrow> error + context_layer" where
  "ContextRepresentationLayer_init c cr args =
     bindE (get_nat args ''word_dim'') (\<lambda>wd.
     bindE (get_nat args ''char_hidden_size'') (\<lambda>ch.
     bindE (get_nat args ''hidden_size'') (\<lambda>h.
       Inr \<lparr>cl_args = None, cl_input_size = wd + ch,
            cl_lstm = nn_LSTM c cr (wd + ch) h True, cl_training = True\<rparr>)))"

definition ContextRepresentationLayer_attrs :: "string list" where
  "ContextRepresentationLayer_attrs =
     [''input_size'', ''lstm'', ''__init__'', ''droput'', ''forward'']"

definition ContextRepresentationLayer_droput ::
  "(string \<times> fn) list \<Rightarrow> (nat \<Rightarrow> bool) \<Rightarrow> context_layer \<Rightarrow> real tensor
     \<Rightarrow> error + real tensor" where
  "ContextRepresentationLayer_droput F dmask self V =
     bindE (module_getattr F ''droput'') (\<lambda>f.
       case cl_args self of
         None \<Rightarrow> Inl (AttributeError ''args'')
       | Some args \<Rightarrow>
           bindE (get_real args ''dropout'') (\<lambda>p.
             call_dropout_like dmask f V p (cl_training self)))"

definition ContextRepresentationLayer_call ::
  "(string \<times> fn) list \<Rightarrow> (nat \<Rightarrow> bool) \<Rightarrow> string \<Rightarrow> context_layer \<Rightarrow> real tensor
     \<Rightarrow> error + real tensor" where
  "ContextRepresentationLayer_call F dmask name self V =
     (if name = ''droput'' then ContextRepresentationLayer_droput F dmask self V
      else Inl (TypeError name))"

definition ContextRepresentationLayer_forward ::
  "(string \<times> fn) list \<Rightarrow> (nat \<Rightarrow> bool) \<Rightarrow> context_layer \<Rightarrow> real tensor
     \<Rightarrow> error + real tensor" where
  "ContextRepresentationLayer_forward F dmask self sentence =
     bindE (lstm_forward (cl_lstm self) sentence) (\<lambda>(output, h_n, c_n).
     bindE (lookup_attr ContextRepresentationLayer_attrs ''dropout'') (\<lambda>_.
       ContextRepresentationLayer_call F dmask ''dropout'' self output))"

subsection \<open>MatchingLayer\<close>

record matching_layer =
  ml_training :: bool

definition MatchingLayer_init :: "pyobj \<Rightarrow> matching_layer" where
  \<comment> \<open>the body after the base-class constructor is \<open>pass\<close>\<close>
  "MatchingLayer_init args = \<lparr>ml_training = True\<rparr>"

definition MatchingLayer_forward :: "matching_layer \<Rightarrow> real tensor list \<Rightarrow> error + pyval" where
  \<comment> \<open>\<open>def forward(self): pass\<close>, called with the positional arguments \<open>inputs\<close>\<close>
  "MatchingLayer_forward self inputs =
     (if inputs = [] then Inr VNone
      else Inl (TypeError ''forward() takes 1 positional argument but more were given''))"

subsection \<open>AggregationLayer\<close>

record aggregation_layer =
  al_args :: pyobj
  al_lstm :: lstm
  al_training :: bool

definition AggregationLayer_attrs :: "string list" where
  "AggregationLayer_attrs = [''args'', ''lstm'', ''__init__'', ''droput'', ''forward'']"

definition AggregationLayer_init :: "cell \<Rightarrow> cell \<Rightarrow> pyobj \<Rightarrow> error + aggregation_layer" where
  \<comment> \<open>\<open>self.lstm = self.LSTM(input_size=args.num_perpectives*8, ...)\<close>: the callee
      \<open>self.LSTM\<close> is looked up first, when only \<open>args\<close> has been assigned; whatever a
      lookup could find on the instance is not a recurrent-layer constructor\<close>
  "AggregationLayer_init c cr args =
     bindE (lookup_attr [''args'', ''__init__'', ''droput'', ''forward''] ''LSTM'') (\<lambda>_.
     bindE (get_nat args ''num_perpectives'') (\<lambda>k.
     bindE (get_nat args ''hidden_size'') (\<lambda>h.
       Inl (TypeError ''got an unexpected keyword argument input_size''))))"

definition AggregationLayer_droput ::
  "(string \<times> fn) list \<Rightarrow> (nat \<Rightarrow> bool) \<Rightarrow> aggregation_layer \<Rightarrow> real tensor
     \<Rightarrow> error + real tensor" where
  "AggregationLayer_droput F dmask self V =
     bindE (module_getattr F ''droput'') (\<lambda>f.
     bindE (get_real (al_args self) ''dropout'') (\<lambda>p.
       call_dropout_like dmask f V p (al_training self)))"

definition AggregationLayer_call ::
  "(string \<times> fn) list \<Rightarrow> (nat \<Rightarrow> bool) \<Rightarrow> string \<Rightarrow> aggregation_layer \<Rightarrow> real tensor
     \<Rightarrow> error + real tensor" where
  "AggregationLayer_call F dmask name self V =
     (if name = ''droput'' then AggregationLayer_droput F dmask self V
      else Inl (TypeError name))"

definition final_states_2d :: "aggregation_layer \<Rightarrow> real tensor \<Rightarrow> error + real tensor" where
  \<comment> \<open>\<open>h.permute(1, 0, 2).view(-1, self.args.hidden_size*2)\<close>; \<open>view\<close> needs a
      contiguous layout\<close>
  "final_states_2d self h_n =
     bindE (permute102 h_n) (\<lambda>(t, contiguous).
     bindE (get_nat (al_args self) ''hidden_size'') (\<lambda>h.
       if contiguous then view t [-1, int (h * 2)]
       else Inl (RuntimeError ''view size is not compatible with input size and stride'')))"

definition AggregationLayer_forward ::
  "(string \<times> fn) list \<Rightarrow> (nat \<Rightarrow> bool) \<Rightarrow> aggregation_layer \<Rightarrow> real tensor \<Rightarrow> real tensor
     \<Rightarrow> error + real tensor" where
  "AggregationLayer_forward F dmask self p q =
     bindE (lstm_forward (al_lstm self) p) (\<lambda>(p_out, p_h, p_c).
     bindE (lstm_forward (al_lstm self) q) (\<lambda>(q_out, q_h, q_c).
     bindE (final_states_2d self p_h) (\<lambda>p2.
     bindE (final_states_2d self q_h) (\<lambda>q2.
     bindE (cat_last p2 q2) (\<lambda>x.
     bindE (lookup_attr AggregationLayer_attrs ''dropout'') (\<lambda>_.
       AggregationLayer_call F dmask ''dropout'' self x))))))"

subsection \<open>PredictionLayer\<close>

record prediction_layer =
  pl_args :: "pyobj option"
  pl_hidden_layer :: linear
  pl_output_layer :: linear
  pl_training :: bool

definition PredictionLayer_init ::
  "(nat \<Rightarrow> nat \<Rightarrow> real) \<Rightarrow> (nat \<Rightarrow> real) \<Rightarrow> (nat \<Rightarrow> nat \<Rightarrow> real) \<Rightarrow> (nat \<Rightarrow> real) \<Rightarrow> pyobj
     \<Rightarrow> error + prediction_layer" where
  "PredictionLayer_init w1 b1 w2 b2 args =
     bindE (get_nat args ''hidden_size'') (\<lambda>h.
     bindE (get_nat args ''num_classes'') (\<lambda>k.
       Inr \<lparr>pl_args = None,
            pl_hidden_layer = nn_Linear w1 b1 (h * 4) (h * 2),
            pl_output_layer = nn_Linear w2 b2 (h * 2) k,
            pl_training = True\<rparr>))"

definition PredictionLayer_attrs :: "string list" where
  "PredictionLayer_attrs =
     [''hidden_layer'', ''output_layer'', ''__init__'', ''droput'', ''forward'']"

definition PredictionLayer_droput ::
  "(string \<times> fn) list \<Rightarrow> (nat \<Rightarrow> bool) \<Rightarrow> prediction_layer \<Rightarrow> real tensor
     \<Rightarrow> error + real tensor" where
  "PredictionLayer_droput F dmask self V =
     bindE (module_getattr F ''droput'') (\<lambda>f.
       case pl_args self of
         None \<Rightarrow> Inl (AttributeError ''args'')
       | Some args \<Rightarrow>
           bindE (get_real args ''dropout'') (\<lambda>p.
             call_dropout_like dmask f V p (pl_training self)))"

definition PredictionLayer_call ::
  "(string \<times> fn) list \<Rightarrow> (nat \<Rightarrow> bool) \<Rightarrow> string \<Rightarrow> prediction_layer \<Rightarrow> real tensor
     \<Rightarrow> error + real tensor" where
  "PredictionLayer_call F dmask name self V =
     (if name = ''droput'' then PredictionLayer_droput F dmask self V
      else Inl (TypeError name))"

definition PredictionLayer_forward ::
  "(string \<times> fn) list \<Rightarrow> (nat \<Rightarrow> bool) \<Rightarrow> prediction_layer \<Rightarrow> real tensor \<Rightarrow> error + real tensor" where
  "PredictionLayer_forward F dmask self match_vec =
     bindE (module_getattr F ''relu'') (\<lambda>relu.
     bindE (linear_forward (pl_hidden_layer self) match_vec) (\<lambda>hidden.
     bindE (call_unary dmask relu hidden) (\<lambda>x.
     bindE (module_getattr F ''softmax'') (\<lambda>softmax.
     bindE (lookup_attr PredictionLayer_attrs ''dropout'') (\<lambda>_.
     bindE (PredictionLayer_call F dmask ''dropout'' self x) (\<lambda>dropped.
     bindE (linear_forward (pl_output_layer self) dropped) (\<lambda>out.
       call_unary dmask softmax out)))))))"

section \<open>Model objects, the framework and the evaluation driver (\<open>test.py\<close>)\<close>

text \<open>
  \<open>model/bimpm.py\<close> and \<open>model/utils.py\<close> are not part of the sources: the model's
  constructor, its move to a device and its forward pass, the batch-to-sentence
  conversion, the loss, the gradients and the optimizer's arithmetic are parameters,
  collected in a record. What the drivers do
  with them is written out. Model objects live in a store (a list of cells, a reference
  is an index), since \<open>eval()\<close>, \<open>train()\<close> and the optimizer mutate the model in place
  and \<open>copy.deepcopy\<close> allocates a new object. The store also holds the framework's
  global gradient mode and the trace of the forward passes made so far, each with the
  training flag and the gradient mode it ran under; the length of the trace stands for
  the state of the random number generator.
\<close>

record param =
  p_name :: string
  p_data :: "real list"
  p_grad :: "real list option"
  p_requires_grad :: bool

record model_obj =
  m_params :: "param list"
  m_training :: bool

record world =
  heap :: "model_obj list"
  grad_enabled :: bool
  fwd_log :: "(bool \<times> bool) list"

record 'd batch =
  b_data :: 'd
  b_label :: "int list"

record ('d, 'x) framework =
  fw_BiMPM :: "pyobj \<Rightarrow> 'd batch model_data \<Rightarrow> error + model_obj"
  fw_cuda :: "pyval \<Rightarrow> model_obj \<Rightarrow> error + model_obj"
  fw_generate :: "'d batch \<Rightarrow> pyval \<Rightarrow> pyval \<Rightarrow> 'x"
  fw_forward :: "nat \<Rightarrow> model_obj \<Rightarrow> 'x \<Rightarrow> error + real list list"
  fw_criterion :: "real list list \<Rightarrow> int list \<Rightarrow> real"
  fw_data0 :: "real \<Rightarrow> error + real"
  fw_backward :: "nat \<Rightarrow> model_obj \<Rightarrow> 'x \<Rightarrow> int list \<Rightarrow> nat \<Rightarrow> real list"
  fw_adam :: "real \<Rightarrow> real list list \<Rightarrow> real list \<Rightarrow> real list"

datatype pyfloat = Float real | NaN

definition cross_entropy :: "real list list \<Rightarrow> int list \<Rightarrow> real" where
  \<comment> \<open>the value of \<open>nn.CrossEntropyLoss()\<close> on rows of scores and class indices in range:
      the mean over the batch of minus the log of the softmax at the label\<close>
  "cross_entropy preds labels =
     (\<Sum>(row, l) \<leftarrow> zip preds labels. ln (\<Sum>x \<leftarrow> row. exp x) - row ! nat l)
       / real (length preds)"

definition truthy :: "pyval \<Rightarrow> bool" where
  \<comment> \<open>the truth value of an object in a condition\<close>
  "truthy v =
     (case v of
        VNone \<Rightarrow> False
      | VBool b \<Rightarrow> b
      | VInt i \<Rightarrow> i \<noteq> 0
      | VReal x \<Rightarrow> x \<noteq> 0
      | VStr s \<Rightarrow> s \<noteq> []
      | VList xs \<Rightarrow> xs \<noteq> []
      | VBuiltin n \<Rightarrow> True)"

definition set_training :: "nat \<Rightarrow> bool \<Rightarrow> world \<Rightarrow> world" where
  \<comment> \<open>\<open>model.eval()\<close> and \<open>model.train()\<close>\<close>
  "set_training r flag w = w\<lparr>heap := (heap w)[r := (heap w ! r)\<lparr>m_training := flag\<rparr>]\<rparr>"

definition call_model ::
  "('d, 'x) framework \<Rightarrow> nat \<Rightarrow> 'x \<Rightarrow> world \<Rightarrow> world \<times> (error + real list list)" where
  \<comment> \<open>\<open>model(p, q)\<close>\<close>
  "call_model fw r x w =
     (w\<lparr>fwd_log := fwd_log w @ [(m_training (heap w ! r), grad_enabled w)]\<rparr>,
      fw_forward fw (length (fwd_log w)) (heap w ! r) x)"

definition argmax_row :: "real list \<Rightarrow> nat" where
  \<comment> \<open>index of the first maximal entry\<close>
  "argmax_row xs =
     fst (foldl (\<lambda>(bi, bv) (i, v). if bv < v then (i, v) else (bi, bv))
            (0, hd xs) (zip [0..<length xs] xs))"

definition max_dim1 :: "real list list \<Rightarrow> error + nat list" where
  \<comment> \<open>the indices of \<open>preds.max(dim=1)\<close>\<close>
  "max_dim1 preds =
     (if [] \<in> set preds then Inl (RuntimeError ''cannot perform reduction over a dimension of size 0'')
      else Inr (map argmax_row preds))"

definition count_equal :: "nat list \<Rightarrow> int list \<Rightarrow> error + nat" where
  \<comment> \<open>\<open>(preds == label).sum()\<close>, with the broadcast of a one-element tensor\<close>
  "count_equal ps ls =
     (if length ps = length ls
      then Inr (length (filter (\<lambda>(p, l). int p = l) (zip ps ls)))
      else if length ls = 1 then Inr (length (filter (\<lambda>p. int p = hd ls) ps))
      else if length ps = 1 then Inr (length (filter (\<lambda>l. int (hd ps) = l) ls))
      else Inl (RuntimeError ''the size of tensor a must match the size of tensor b''))"

record test_vars =
  tv_acc :: real
  tv_loss :: real
  tv_size :: nat
  tv_batches :: nat

definition test_batch ::
  "('d, 'x) framework \<Rightarrow> nat \<Rightarrow> pyobj \<Rightarrow> 'd batch \<Rightarrow> world \<times> test_vars
     \<Rightarrow> (world \<times> test_vars) \<times> error option" where
  \<comment> \<open>the body of the loop of \<open>test\<close>, lines 160-171\<close>
  "test_batch fw r args b s =
     (case s of (w, v) \<Rightarrow>
      case getattr args ''data_type'' of
        Inl e \<Rightarrow> (s, Some e)
      | Inr dt \<Rightarrow>
      case getattr args ''device'' of
        Inl e \<Rightarrow> (s, Some e)
      | Inr dev \<Rightarrow>
      case call_model fw r (fw_generate fw b dt dev) w of
        (w', Inl e) \<Rightarrow> ((w', v), Some e)
      | (w', Inr preds) \<Rightarrow>
      let v1 = v\<lparr>tv_loss := tv_loss v + fw_criterion fw preds (b_label b)\<rparr> in
      case max_dim1 preds of
        Inl e \<Rightarrow> ((w', v1), Some e)
      | Inr idx \<Rightarrow>
      case count_equal idx (b_label b) of
        Inl e \<Rightarrow> ((w', v1), Some e)
      | Inr k \<Rightarrow>
          ((w', v1\<lparr>tv_acc := tv_acc v1 + real k, tv_size := tv_size v1 + length idx,
                    tv_batches := Suc (tv_batches v1)\<rparr>), None))"

fun test_loop ::
  "('d, 'x) framework \<Rightarrow> nat \<Rightarrow> pyobj \<Rightarrow> 'd batch list \<Rightarrow> world \<times> test_vars
     \<Rightarrow> (world \<times> test_vars) \<times> error option" where
  "test_loop fw r args [] s = (s, None)"
| "test_loop fw r args (b # bs) s =
     (case test_batch fw r args b s of
        (s', Some e) \<Rightarrow> (s', Some e)
      | (s', None) \<Rightarrow> test_loop fw r args bs s')"

datatype test_result = LossAcc real pyfloat | Preds "real list"

definition test_app ::
  "('d, 'x) framework \<Rightarrow> nat \<Rightarrow> pyobj \<Rightarrow> 'd batch model_data \<Rightarrow> world
     \<Rightarrow> world \<times> (error + test_result)" where
  \<comment> \<open>the branch \<open>mode == 'app'\<close>, lines 151-154\<close>
  "test_app fw r args data w =
     (case getattr args ''data_type'' of
        Inl e \<Rightarrow> (w, Inl e)
      | Inr dt \<Rightarrow>
      case getattr args ''device'' of
        Inl e \<Rightarrow> (w, Inl e)
      | Inr dev \<Rightarrow>
      case call_model fw r (fw_generate fw (md_batch data) dt dev) w of
        (w', Inl e) \<Rightarrow> (w', Inl e)
      | (w', Inr preds) \<Rightarrow>
          (w', case preds of [] \<Rightarrow> Inl IndexError | row # _ \<Rightarrow> Inr (Preds row)))"

definition test ::
  "('d, 'x) framework \<Rightarrow> nat \<Rightarrow> pyobj \<Rightarrow> 'd batch model_data \<Rightarrow> string \<Rightarrow> world
     \<Rightarrow> world \<times> (error + test_result)" where
  \<comment> \<open>\<open>test(model, args, model_data, mode)\<close>; \<open>acc\<close> is the integer \<open>0\<close> until the first
      batch makes it a tensor, and only a tensor divided by \<open>0\<close> gives NaN\<close>
  "test fw r args data mode w0 =
     (let w = set_training r False w0 in
      if mode = ''app'' then test_app fw r args data w
      else
        let iterator = (if mode = ''valid'' then Some (md_valid_iter data)
                        else if mode = ''test'' then Some (md_test_iter data)
                        else None)
        in case iterator of
             None \<Rightarrow> (w, Inl (UnboundLocalError ''iterator''))
           | Some bs \<Rightarrow>
             (case test_loop fw r args bs
                     (w, \<lparr>tv_acc = 0, tv_loss = 0, tv_size = 0, tv_batches = 0\<rparr>) of
                ((w', v), Some e) \<Rightarrow> (w', Inl e)
              | ((w', v), None) \<Rightarrow>
                  if tv_size v = 0
                  then (if tv_batches v = 0 then (w', Inl ZeroDivisionError)
                        else (w', Inr (LossAcc (tv_loss v) NaN)))
                  else (w', Inr (LossAcc (tv_loss v) (Float (tv_acc v / real (tv_size v)))))))"

section \<open>The training loop (\<open>train.py\<close>)\<close>

text \<open>
  The optimizer holds references to the parameters it was handed, here their positions
  in the parameter list of the model, and the gradients it has seen for each of them
  (Adam's moment estimates are a function of these). \<open>backward\<close> accumulates a gradient
  into every parameter that requires one; \<open>step\<close> updates the optimizer's parameters
  that have a gradient. The training iterator is a finite list of batches and
  \<open>keep_training\<close> a predicate on the number of batches drawn so far. Local variables
  that are assigned only inside the loop (\<open>best_model\<close>, \<open>p, q\<close>) are optional. The
  scalars given to the summary writer are kept in the state.
\<close>

record optimizer =
  opt_params :: "nat list"
  opt_lr :: real
  opt_seen :: "(nat \<times> real list) list"

record 'x train_state =
  ts_world :: world
  ts_opt :: optimizer
  ts_train_loss :: real
  ts_max_valid_acc :: real
  ts_max_test_acc :: pyfloat
  ts_best_model :: "nat option"
  ts_pq :: "'x option"
  ts_scalars :: "(string \<times> pyfloat \<times> int) list"

definition parameters_requiring_grad :: "model_obj \<Rightarrow> nat list" where
  \<comment> \<open>\<open>(p for p in model.parameters() if p.requires_grad)\<close>\<close>
  "parameters_requiring_grad m =
     filter (\<lambda>k. p_requires_grad (m_params m ! k)) [0..<length (m_params m)]"

definition optim_Adam :: "nat list \<Rightarrow> real \<Rightarrow> error + optimizer" where
  "optim_Adam ps lr =
     (if ps = [] then Inl (ValueError ''optimizer got an empty parameter list'')
      else if lr < 0 then Inl (ValueError ''Invalid learning rate'')
      else Inr \<lparr>opt_params = ps, opt_lr = lr, opt_seen = []\<rparr>)"

definition map_params :: "nat list \<Rightarrow> (nat \<Rightarrow> param \<Rightarrow> param) \<Rightarrow> model_obj \<Rightarrow> model_obj" where
  \<comment> \<open>an in-place change of the parameters at the positions \<open>ks\<close>\<close>
  "map_params ks f m =
     m\<lparr>m_params :=
         map (\<lambda>k. if k \<in> set ks then f k (m_params m ! k) else m_params m ! k)
             [0..<length (m_params m)]\<rparr>"

definition zero_grad :: "optimizer \<Rightarrow> nat \<Rightarrow> world \<Rightarrow> world" where
  \<comment> \<open>\<open>optimizer.zero_grad()\<close>\<close>
  "zero_grad opt r w =
     w\<lparr>heap := (heap w)[r :=
         map_params (opt_params opt)
           (\<lambda>k p. p\<lparr>p_grad := map_option (map (\<lambda>_. 0)) (p_grad p)\<rparr>) (heap w ! r)]\<rparr>"

definition accumulate :: "real list option \<Rightarrow> real list \<Rightarrow> real list" where
  "accumulate old g = (case old of None \<Rightarrow> g | Some a \<Rightarrow> map (\<lambda>(x, y). x + y) (zip a g))"

definition backward ::
  "('d, 'x) framework \<Rightarrow> nat \<Rightarrow> model_obj \<Rightarrow> 'x \<Rightarrow> int list \<Rightarrow> nat \<Rightarrow> world \<Rightarrow> error + world" where
  \<comment> \<open>\<open>batch_loss.backward()\<close> for the loss of forward pass \<open>n\<close>, made on model \<open>m\<close>\<close>
  "backward fw n m x labels r w =
     (if \<not> snd (fwd_log w ! n) \<or> parameters_requiring_grad (heap w ! r) = []
      then Inl (RuntimeError
                  ''element 0 of tensors does not require grad and does not have a grad_fn'')
      else Inr (w\<lparr>heap := (heap w)[r :=
                  map_params (parameters_requiring_grad (heap w ! r))
                    (\<lambda>k p. p\<lparr>p_grad := Some (accumulate (p_grad p) (fw_backward fw n m x labels k))\<rparr>)
                    (heap w ! r)]\<rparr>))"

definition optimizer_step ::
  "('d, 'x) framework \<Rightarrow> optimizer \<Rightarrow> nat \<Rightarrow> world \<Rightarrow> world \<times> optimizer" where
  \<comment> \<open>\<open>optimizer.step()\<close>\<close>
  "optimizer_step fw opt r w =
     (let m = heap w ! r;
          upd = filter (\<lambda>k. k < length (m_params m) \<and> p_grad (m_params m ! k) \<noteq> None)
                  (opt_params opt);
          seen = opt_seen opt @ map (\<lambda>k. (k, the (p_grad (m_params m ! k)))) upd
      in (w\<lparr>heap := (heap w)[r :=
              map_params upd
                (\<lambda>k p. p\<lparr>p_data := fw_adam fw (opt_lr opt)
                                      (map snd (filter (\<lambda>jg. fst jg = k) seen)) (p_data p)\<rparr>)
                m]\<rparr>,
          opt\<lparr>opt_seen := seen\<rparr>))"

definition gradient_update ::
  "('d, 'x) framework \<Rightarrow> pyobj \<Rightarrow> nat \<Rightarrow> 'd batch \<Rightarrow> 'x train_state
     \<Rightarrow> 'x train_state \<times> error option" where
  \<comment> \<open>lines 78-86\<close>
  "gradient_update fw args r b st =
     (case getattr args ''data_type'' of
        Inl e \<Rightarrow> (st, Some e)
      | Inr dt \<Rightarrow>
      case getattr args ''gpu'' of
        Inl e \<Rightarrow> (st, Some e)
      | Inr gpu \<Rightarrow>
      let x = fw_generate fw b dt gpu;
          st1 = st\<lparr>ts_pq := Some x\<rparr>;
          n = length (fwd_log (ts_world st));
          m = heap (ts_world st) ! r
      in
      case call_model fw r x (ts_world st) of
        (w1, Inl e) \<Rightarrow> (st1\<lparr>ts_world := w1\<rparr>, Some e)
      | (w1, Inr preds) \<Rightarrow>
      let w2 = zero_grad (ts_opt st) r w1 in
      case fw_data0 fw (fw_criterion fw preds (b_label b)) of
        Inl e \<Rightarrow> (st1\<lparr>ts_world := w2\<rparr>, Some e)
      | Inr l \<Rightarrow>
      let st2 = st1\<lparr>ts_train_loss := ts_train_loss st + l\<rparr> in
      case backward fw n m x (b_label b) r w2 of
        Inl e \<Rightarrow> (st2\<lparr>ts_world := w2\<rparr>, Some e)
      | Inr w3 \<Rightarrow>
      case optimizer_step fw (ts_opt st) r w3 of
        (w4, opt) \<Rightarrow> (st2\<lparr>ts_world := w4, ts_opt := opt\<rparr>, None))"

definition unpack2 :: "test_result \<Rightarrow> error + real \<times> pyfloat" where
  \<comment> \<open>\<open>loss, acc = test(...)\<close>\<close>
  "unpack2 res =
     (case res of
        LossAcc l a \<Rightarrow> Inr (l, a)
      | Preds row \<Rightarrow>
          if length row = 2 then Inr (row ! 0, Float (row ! 1))
          else Inl (ValueError ''not enough values to unpack''))"

definition pygt :: "pyfloat \<Rightarrow> real \<Rightarrow> bool" where
  \<comment> \<open>\<open>a > b\<close>: a comparison with NaN is false\<close>
  "pygt a b = (case a of Float x \<Rightarrow> b < x | NaN \<Rightarrow> False)"

definition pyfloat_val :: "pyfloat \<Rightarrow> real" where
  "pyfloat_val a = (case a of Float x \<Rightarrow> x | NaN \<Rightarrow> 0)"

definition deepcopy :: "nat \<Rightarrow> world \<Rightarrow> world \<times> nat" where
  \<comment> \<open>\<open>copy.deepcopy(model)\<close>: a new object with the same contents\<close>
  "deepcopy r w = (w\<lparr>heap := heap w @ [heap w ! r]\<rparr>, length (heap w))"

definition evaluate ::
  "('d, 'x) framework \<Rightarrow> pyobj \<Rightarrow> 'd batch model_data \<Rightarrow> nat \<Rightarrow> nat \<Rightarrow> int \<Rightarrow> 'x train_state
     \<Rightarrow> 'x train_state \<times> error option" where
  \<comment> \<open>lines 89-113, the block run every \<open>print_interval\<close> iterations\<close>
  "evaluate fw args data r i print_interval st =
     (case test fw r args data ''valid'' (ts_world st) of (w1, rv) \<Rightarrow>
      case bindE rv unpack2 of
        Inl e \<Rightarrow> (st\<lparr>ts_world := w1\<rparr>, Some e)
      | Inr (valid_loss, valid_acc) \<Rightarrow>
      case test fw r args data ''test'' w1 of (w2, rt) \<Rightarrow>
      case bindE rt unpack2 of
        Inl e \<Rightarrow> (st\<lparr>ts_world := w2\<rparr>, Some e)
      | Inr (test_loss, test_acc) \<Rightarrow>
      let c = int (i + 1) div print_interval;
          st1 = st\<lparr>ts_world := w2,
                   ts_scalars := ts_scalars st @
                     [(''loss/train'', Float (ts_train_loss st), c),
                      (''loss/valid'', Float valid_loss, c),
                      (''acc/valid'', valid_acc, c),
                      (''loss/test'', Float test_loss, c),
                      (''acc/test'', test_acc, c)]\<rparr>;
          st2 = (if pygt valid_acc (ts_max_valid_acc st1)
                 then case deepcopy r w2 of
                        (w3, best) \<Rightarrow>
                          st1\<lparr>ts_max_valid_acc := pyfloat_val valid_acc,
                              ts_max_test_acc := test_acc,
                              ts_best_model := Some best,
                              ts_world := w3\<rparr>
                 else st1)
      in (st2\<lparr>ts_train_loss := 0, ts_world := set_training r True (ts_world st2)\<rparr>, None))"

definition train_step ::
  "('d, 'x) framework \<Rightarrow> pyobj \<Rightarrow> 'd batch model_data \<Rightarrow> nat \<Rightarrow> nat \<Rightarrow> 'd batch \<Rightarrow> 'x train_state
     \<Rightarrow> 'x train_state \<times> error option" where
  \<comment> \<open>the body of the loop for iteration \<open>i\<close>, after the test of \<open>keep_training\<close>\<close>
  "train_step fw args data r i b st =
     (case gradient_update fw args r b st of
        (st1, Some e) \<Rightarrow> (st1, Some e)
      | (st1, None) \<Rightarrow>
      case getattr args ''print_interval'' of
        Inl e \<Rightarrow> (st1, Some e)
      | Inr v \<Rightarrow>
      case v of
        VInt print_interval \<Rightarrow>
          if print_interval = 0 then (st1, Some ZeroDivisionError)
          else if int (i + 1) mod print_interval = 0
          then evaluate fw args data r i print_interval st1
          else (st1, None)
      | _ \<Rightarrow> (st1, Some (TypeError ''print_interval'')))"

fun train_loop ::
  "('d, 'x) framework \<Rightarrow> pyobj \<Rightarrow> 'd batch model_data \<Rightarrow> nat \<Rightarrow> nat \<Rightarrow> 'd batch list
     \<Rightarrow> 'x train_state \<Rightarrow> 'x train_state \<times> error option" where
  "train_loop fw args data r i [] st = (st, None)"
| "train_loop fw args data r i (b # bs) st =
     (if \<not> md_keep_training data i then (st, None)
      else case train_step fw args data r i b st of
             (st1, Some e) \<Rightarrow> (st1, Some e)
           | (st1, None) \<Rightarrow> train_loop fw args data r (Suc i) bs st1)"

definition train_setup ::
  "('d, 'x) framework \<Rightarrow> pyobj \<Rightarrow> 'd batch model_data \<Rightarrow> world \<Rightarrow> error + nat \<times> 'x train_state" where
  \<comment> \<open>lines 60-72\<close>
  "train_setup fw args data w0 =
     bindE (fw_BiMPM fw args data) (\<lambda>m.
     bindE (getattr args ''gpu'') (\<lambda>gpu.
     bindE (if truthy gpu then fw_cuda fw gpu m else Inr m) (\<lambda>m.
     bindE (get_real args ''lr'') (\<lambda>lr.
     bindE (optim_Adam (parameters_requiring_grad m) lr) (\<lambda>opt.
     bindE (getattr args ''model_time'') (\<lambda>t.
       case t of
         VStr model_time \<Rightarrow>
           Inr (length (heap w0),
                \<lparr>ts_world = set_training (length (heap w0)) True (w0\<lparr>heap := heap w0 @ [m]\<rparr>),
                 ts_opt = opt, ts_train_loss = 0, ts_max_valid_acc = 0,
                 ts_max_test_acc = Float 0, ts_best_model = None, ts_pq = None,
                 ts_scalars = []\<rparr>)
       | _ \<Rightarrow> Inl (TypeError ''can only concatenate str to str'')))))))"

definition train_finish ::
  "('d, 'x) framework \<Rightarrow> 'x train_state \<Rightarrow> world \<times> (error + nat)" where
  \<comment> \<open>lines 119-122; \<open>add_graph\<close> traces one forward pass of the model it is given\<close>
  "train_finish fw st =
     (case ts_best_model st of
        None \<Rightarrow> (ts_world st, Inl (UnboundLocalError ''best_model''))
      | Some best \<Rightarrow>
      case ts_pq st of
        None \<Rightarrow> (ts_world st, Inl (UnboundLocalError ''p''))
      | Some x \<Rightarrow>
      case call_model fw best x (ts_world st) of
        (w, Inl e) \<Rightarrow> (w, Inl e)
      | (w, Inr preds) \<Rightarrow> (w, Inr best))"

definition train ::
  "('d, 'x) framework \<Rightarrow> pyobj \<Rightarrow> 'd batch model_data \<Rightarrow> world \<Rightarrow> world \<times> (error + nat)" where
  "train fw args data w0 =
     (case train_setup fw args data w0 of
        Inl e \<Rightarrow> (w0, Inl e)
      | Inr (r, st0) \<Rightarrow>
      case train_loop fw args data r 0 (md_train_iter data) st0 of
        (st, Some e) \<Rightarrow> (ts_world st, Inl e)
      | (st, None) \<Rightarrow> train_finish fw st)"

section \<open>The training entry point (\<open>train.py\<close>, \<open>main\<close>)\<close>

text \<open>
  \<open>main\<close> reads its twelve arguments through \<open>locals()\<close>. The dataset loaders of
  \<open>model/utils.py\<close>, the conversion of a value to text and the clock are parameters.
  The file system is a list of directories and a list of files with their contents.
\<close>

record main_args =
  a_batch_size :: pyval
  a_char_dim :: pyval
  a_char_hidden_size :: pyval
  a_data_type :: pyval
  a_dropout :: pyval
  a_epoch :: pyval
  a_gpu :: pyval
  a_hidden_size :: pyval
  a_lr :: pyval
  a_num_perspectives :: pyval
  a_print_interval :: pyval
  a_word_dim :: pyval

definition main_defaults :: main_args where
  "main_defaults =
     \<lparr>a_batch_size = VInt 64, a_char_dim = VInt 20, a_char_hidden_size = VInt 50,
      a_data_type = VList [VStr ''SNLI'', VStr ''Quora''], a_dropout = VReal (1 / 10),
      a_epoch = VInt 10, a_gpu = VBool True, a_hidden_size = VInt 100,
      a_lr = VReal (1 / 1000), a_num_perspectives = VInt 20, a_print_interval = VInt 500,
      a_word_dim = VInt 300\<rparr>"

definition locals_of :: "main_args \<Rightarrow> pyobj" where
  \<comment> \<open>\<open>locals()\<close> on the first line of \<open>main\<close>\<close>
  "locals_of a =
     Dict [(''batch_size'', a_batch_size a), (''char_dim'', a_char_dim a),
           (''char_hidden_size'', a_char_hidden_size a), (''data_type'', a_data_type a),
           (''dropout'', a_dropout a), (''epoch'', a_epoch a), (''gpu'', a_gpu a),
           (''hidden_size'', a_hidden_size a), (''lr'', a_lr a),
           (''num_perspectives'', a_num_perspectives a),
           (''print_interval'', a_print_interval a), (''word_dim'', a_word_dim a)]"

record filesystem =
  fs_dirs :: "string list"
  fs_files :: "(string \<times> (string \<times> real list) list) list"

definition path_exists :: "filesystem \<Rightarrow> string \<Rightarrow> bool" where
  "path_exists fs p = (p \<in> set (fs_dirs fs) \<or> p \<in> fst ` set (fs_files fs))"

definition makedirs :: "string \<Rightarrow> filesystem \<Rightarrow> error + filesystem" where
  \<comment> \<open>\<open>os.makedirs(p)\<close> for a path of one component\<close>
  "makedirs p fs =
     (if path_exists fs p then Inl (FileExistsError p)
      else Inr (fs\<lparr>fs_dirs := fs_dirs fs @ [p]\<rparr>))"

definition dirname :: "string \<Rightarrow> string" where
  "dirname p = rev (drop 1 (dropWhile (\<lambda>c. c \<noteq> CHR ''/'') (rev p)))"

definition state_dict :: "model_obj \<Rightarrow> (string \<times> real list) list" where
  "state_dict m = map (\<lambda>p. (p_name p, p_data p)) (m_params m)"

definition torch_save ::
  "(string \<times> real list) list \<Rightarrow> string \<Rightarrow> filesystem \<Rightarrow> error + filesystem" where
  \<comment> \<open>\<open>torch.save(obj, path)\<close>: the file is opened for writing in an existing directory\<close>
  "torch_save obj path fs =
     (if path \<in> set (fs_dirs fs) then Inl (IsADirectoryError path)
      else if dirname path \<in> set (fs_dirs fs)
      then Inr (fs\<lparr>fs_files := (path, obj) # filter (\<lambda>f. fst f \<noteq> path) (fs_files fs)\<rparr>)
      else if dirname path \<in> fst ` set (fs_files fs) then Inl (NotADirectoryError path)
      else Inl (FileNotFoundError path))"

definition save_best ::
  "(pyval \<Rightarrow> string) \<Rightarrow> pyobj \<Rightarrow> model_obj \<Rightarrow> filesystem \<Rightarrow> filesystem \<times> (error + unit)" where
  \<comment> \<open>lines 51-54\<close>
  "save_best py_str args best_model fs =
     (case (if \<not> path_exists fs ''saved_models'' then makedirs ''save_models'' fs
            else Inr fs) of
        Inl e \<Rightarrow> (fs, Inl e)
      | Inr fs1 \<Rightarrow>
      let obj = state_dict best_model in
      case bindE (getattr args ''data_type'') (\<lambda>dt.
           bindE (getattr args ''model_time'') (\<lambda>t.
             Inr (''saved_models/bimpm_'' @ py_str dt @ ''_'' @ py_str t @ ''.pt''))) of
        Inl e \<Rightarrow> (fs1, Inl e)
      | Inr path \<Rightarrow>
      case torch_save obj path fs1 of
        Inl e \<Rightarrow> (fs1, Inl e)
      | Inr fs2 \<Rightarrow> (fs2, Inr ()))"

definition load_data ::
  "(pyobj \<Rightarrow> error + 'd batch model_data) \<Rightarrow> (pyobj \<Rightarrow> error + 'd batch model_data) \<Rightarrow> pyobj
     \<Rightarrow> error + 'd batch model_data" where
  \<comment> \<open>lines 30-38\<close>
  "load_data SNLI Quora args =
     bindE (getattr args ''data_type'') (\<lambda>dt.
       if dt = VStr ''SNLI'' then SNLI args
       else bindE (getattr args ''data_type'') (\<lambda>dt.
         if dt = VStr ''Quora'' then Quora args
         else Inl (RuntimeError ''Data source other than SNLI or Quora was provided.'')))"

definition extend_args :: "string \<Rightarrow> pyobj \<Rightarrow> 'b model_data \<Rightarrow> error + pyobj" where
  \<comment> \<open>lines 40-46\<close>
  "extend_args now args model_data =
     bindE (setitem args ''char_vocab_size'' (VInt (int (md_char_vocab model_data)))) (\<lambda>args.
     bindE (setitem args ''word_vocab_size'' (VInt (int (md_word_vocab model_data)))) (\<lambda>args.
     bindE (setitem args ''class_size'' (VInt (int (md_label_vocab model_data)))) (\<lambda>args.
     bindE (setitem args ''max_word_len'' (VInt (int (md_max_word_len model_data)))) (\<lambda>args.
     bindE (setitem args ''args'' (VStr now)) (\<lambda>args.
       namedtuple_of args)))))"

definition main ::
  "('d, 'x) framework \<Rightarrow> (pyobj \<Rightarrow> error + 'd batch model_data)
     \<Rightarrow> (pyobj \<Rightarrow> error + 'd batch model_data) \<Rightarrow> (pyval \<Rightarrow> string) \<Rightarrow> string
     \<Rightarrow> main_args \<Rightarrow> filesystem \<times> world \<Rightarrow> (filesystem \<times> world) \<times> (error + unit)" where
  "main fw SNLI Quora py_str now a s =
     (case s of (fs, w0) \<Rightarrow>
      let args = locals_of a in
      case load_data SNLI Quora args of
        Inl e \<Rightarrow> ((fs, w0), Inl e)
      | Inr model_data \<Rightarrow>
      case extend_args now args model_data of
        Inl e \<Rightarrow> ((fs, w0), Inl e)
      | Inr args \<Rightarrow>
      case train fw args model_data w0 of
        (w1, Inl e) \<Rightarrow> ((fs, w1), Inl e)
      | (w1, Inr best) \<Rightarrow>
      case save_best py_str args (heap w1 ! best) fs of
        (fs1, res) \<Rightarrow> ((fs1, w1), res))"

subsection \<open>The configuration of the evaluation driver (\<open>test.py\<close>, \<open>main\<close>)\<close>

text \<open>
  \<open>main\<close> of \<open>test.py\<close> wraps its \<open>locals()\<close> in an object read by attribute and adds
  the device and the four sizes of the dataset (lines 71-103); \<open>actual\<close> gives the value
  of each of its fourteen parameters.
\<close>

definition test_main_params :: "string list" where
  "test_main_params =
     [''experiment'', ''app'', ''model_path'', ''batch_size'', ''char_input_size'',
      ''char_hidden_size'', ''data_type'', ''dropout'', ''epoch'', ''hidden_size'', ''lr'',
      ''num_perspectives'', ''print_interval'', ''word_dim'']"

definition test_main_args :: "(string \<Rightarrow> pyval) \<Rightarrow> pyval \<Rightarrow> 'b model_data \<Rightarrow> pyobj" where
  "test_main_args actual device model_data =
     Object (map (\<lambda>n. (n, actual n)) test_main_params @
             [(''device'', device),
              (''word_vocab_size'', VInt (int (md_word_vocab model_data))),
              (''char_vocab_size'', VInt (int (md_char_vocab model_data))),
              (''class_size'', VInt (int (md_label_vocab model_data))),
              (''max_word_len'', VInt (int (md_max_word_len model_data)))])"

section \<open>A small instance\<close>

text \<open>
  A model of two parameters whose forward pass gives every example the scores
  \<open>(1/4, 3/4)\<close>, so that it predicts class \<open>1\<close>; every batch holds one example; the
  loss is the cross entropy. The configuration is the one \<open>main\<close> of \<open>test.py\<close> builds
  from its defaults.
\<close>

definition toy_model :: model_obj where
  "toy_model =
     \<lparr>m_params =
        [\<lparr>p_name = ''word_encoder.weight'', p_data = [1, 2], p_grad = None,
          p_requires_grad = False\<rparr>,
         \<lparr>p_name = ''char_encoder.weight'', p_data = [0, 1], p_grad = None,
          p_requires_grad = True\<rparr>],
      m_training = True\<rparr>"

definition toy_framework :: "(unit, unit) framework" where
  "toy_framework =
     \<lparr>fw_BiMPM = (\<lambda>args data. Inr toy_model),
      fw_cuda = (\<lambda>dev m. Inr m),
      fw_generate = (\<lambda>b dt dev. ()),
      fw_forward = (\<lambda>n m x. Inr [[1 / 4, 3 / 4]]),
      fw_criterion = cross_entropy,
      fw_data0 = Inr,
      fw_backward = (\<lambda>n m x labels k. [1, 1]),
      fw_adam = (\<lambda>lr gs d. map (\<lambda>(x, g). x - lr * g) (zip d (last gs)))\<rparr>"

definition toy_batch :: "int \<Rightarrow> unit batch" where
  "toy_batch l = \<lparr>b_data = (), b_label = [l]\<rparr>"

definition toy_data :: "unit batch model_data" where
  "toy_data =
     \<lparr>md_vectors = [[1, 2]], md_word_vocab = 1, md_char_vocab = 2, md_label_vocab = 2,
      md_max_word_len = 1,
      md_train_iter = [toy_batch 1, toy_batch 0],
      md_valid_iter = [toy_batch 1, toy_batch 0],
      md_test_iter = [toy_batch 1, toy_batch 1, toy_batch 0],
      md_keep_training = (\<lambda>i. True),
      md_batch = toy_batch 1\<rparr>"



definition toy_world :: world where
  "toy_world = \<lparr>heap = [], grad_enabled = True, fwd_log = []\<rparr>"

section \<open>Properties\<close>

lemma import_dotted_missing:
  "m \<in> set ms \<Longrightarrow> m \<notin> set installed \<Longrightarrow>
   \<exists>m' \<in> set ms. import_dotted installed ms = Inl (ModuleNotFoundError m')"
  by (induction ms) auto

lemma import_dotted_cases:
  "import_dotted installed ms = Inr () \<or>
   (\<exists>m \<in> set ms. import_dotted installed ms = Inl (ModuleNotFoundError m))"
  by (induction ms) auto

text \<open>
  C9. Whenever no module named \<open>torch.nn.Functional\<close> is installed, loading the layers
  module raises ModuleNotFoundError (an import error) at one of its first three import
  statements, whatever the module is loaded as, and importing any name from it fails with
  the same kind of error: no layer class becomes available to construct or run.
\<close>

theorem layers_import_raises:
  assumes "''torch.nn.Functional'' \<notin> set installed"
  shows "(\<exists>m \<in> {''torch'', ''torch.nn'', ''torch.nn.Functional''}.
            layers_module installed name = Inl (ModuleNotFoundError m)) \<and>
         (\<exists>m \<in> {''torch'', ''torch.nn'', ''torch.nn.Functional''}.
            \<forall>cls. import_from_layers installed cls = Inl (ModuleNotFoundError m))"
proof -
  have third: "\<exists>m' \<in> set [''torch'', ''torch.nn'', ''torch.nn.Functional''].
      import_dotted installed [''torch'', ''torch.nn'', ''torch.nn.Functional'']
        = Inl (ModuleNotFoundError m')"
    using assms by (intro import_dotted_missing [where m = "''torch.nn.Functional''"]) simp_all
  have *: "\<exists>m \<in> {''torch'', ''torch.nn'', ''torch.nn.Functional''}.
            layers_module installed nm = Inl (ModuleNotFoundError m)" for nm
    using third
    by (cases "''torch'' \<in> set installed"; cases "''torch.nn'' \<in> set installed")
       (auto simp: layers_module_def bindE_def)
  have "\<exists>m \<in> {''torch'', ''torch.nn'', ''torch.nn.Functional''}.
            layers_module installed ''model.layers'' = Inl (ModuleNotFoundError m)"
    by (rule *)
  then obtain m where m: "m \<in> {''torch'', ''torch.nn'', ''torch.nn.Functional''}"
    and eq: "layers_module installed ''model.layers'' = Inl (ModuleNotFoundError m)"
    by blast
  have "\<forall>cls. import_from_layers installed cls = Inl (ModuleNotFoundError m)"
    by (simp add: import_from_layers_def eq bindE_def)
  with m * show ?thesis by blast
qed

theorem layers_import_raises_witness:
  "''torch.nn.Functional'' \<notin> set [''torch'', ''torch.nn'', ''torch.nn.functional'', ''plac''] \<and>
   (\<exists>m \<in> {''torch'', ''torch.nn'', ''torch.nn.Functional''}.
      layers_module [''torch'', ''torch.nn'', ''torch.nn.functional'', ''plac''] ''model.layers''
        = Inl (ModuleNotFoundError m)) \<and>
   (\<exists>m \<in> {''torch'', ''torch.nn'', ''torch.nn.Functional''}.
      \<forall>cls. import_from_layers [''torch'', ''torch.nn'', ''torch.nn.functional'', ''plac''] cls
        = Inl (ModuleNotFoundError m))"
proof -
  have h: "''torch.nn.Functional'' \<notin> set [''torch'', ''torch.nn'', ''torch.nn.functional'', ''plac'']"
    by simp
  from layers_import_raises [OF h, of "''model.layers''"] h show ?thesis
    by blast
qed

subsection \<open>Name lookups that fail\<close>

lemma bindE_Inl [simp]: "bindE (Inl e) f = Inl e"
  by (simp add: bindE_def)

lemma bindE_Inr [simp]: "bindE (Inr x) f = f x"
  by (simp add: bindE_def)

lemma lookup_dropout [simp]:
  "lookup_attr WordRepresentationLayer_attrs ''dropout'' = Inl (AttributeError ''dropout'')"
  "lookup_attr ContextRepresentationLayer_attrs ''dropout'' = Inl (AttributeError ''dropout'')"
  "lookup_attr AggregationLayer_attrs ''dropout'' = Inl (AttributeError ''dropout'')"
  "lookup_attr PredictionLayer_attrs ''dropout'' = Inl (AttributeError ''dropout'')"
  by (simp_all add: lookup_attr_def nn_Module_attrs_def WordRepresentationLayer_attrs_def
      ContextRepresentationLayer_attrs_def AggregationLayer_attrs_def PredictionLayer_attrs_def)

text \<open>
  C5. Every layer defines its dropout method under the name \<open>droput\<close> and calls
  \<open>self.dropout\<close>; the method itself calls \<open>F.droput\<close>. So, whatever the training
  flag, the input, the module bound to \<open>F\<close> and the random draws, the forward pass of
  the word, context, aggregation and prediction layers ends in an exception and never
  returns a tensor (in inference mode it is not the identity), and with \<open>F\<close> the
  framework's functional namespace the dropout method itself raises AttributeError.
\<close>

theorem forward_dropout_raises:
  "(\<exists>e. WordRepresentationLayer_forward F dmask wl s = Inl e) \<and>
   (\<exists>e. ContextRepresentationLayer_forward F dmask cl x = Inl e) \<and>
   (\<exists>e. AggregationLayer_forward F dmask al p q = Inl e) \<and>
   (\<exists>e. PredictionLayer_forward F dmask pl x = Inl e) \<and>
   WordRepresentationLayer_droput torch_nn_functional dmask wl V = Inl (AttributeError ''droput'') \<and>
   ContextRepresentationLayer_droput torch_nn_functional dmask cl V = Inl (AttributeError ''droput'') \<and>
   AggregationLayer_droput torch_nn_functional dmask al V = Inl (AttributeError ''droput'') \<and>
   PredictionLayer_droput torch_nn_functional dmask pl V = Inl (AttributeError ''droput'')"
proof (intro conjI)
  show "\<exists>e. WordRepresentationLayer_forward F dmask wl s = Inl e"
    by (auto simp: WordRepresentationLayer_forward_def Let_def bindE_def split: sum.splits)
  show "\<exists>e. ContextRepresentationLayer_forward F dmask cl x = Inl e"
    by (auto simp: ContextRepresentationLayer_forward_def bindE_def split: sum.splits prod.splits)
  show "\<exists>e. AggregationLayer_forward F dmask al p q = Inl e"
    by (auto simp: AggregationLayer_forward_def bindE_def split: sum.splits prod.splits)
  show "\<exists>e. PredictionLayer_forward F dmask pl x = Inl e"
    by (auto simp: PredictionLayer_forward_def bindE_def split: sum.splits)
qed (simp_all add: WordRepresentationLayer_droput_def ContextRepresentationLayer_droput_def
      AggregationLayer_droput_def PredictionLayer_droput_def module_getattr_def
      torch_nn_functional_def)

text \<open>
  C7. The constructor of the aggregation layer looks up \<open>self.LSTM\<close>, which no module
  instance has (the recurrent layer is \<open>nn.LSTM\<close>): for every configuration it raises
  AttributeError, so no aggregation layer exists whose forward pass could return the
  \<open>4 * hidden_size\<close> vector.
\<close>

theorem AggregationLayer_init_raises:
  "AggregationLayer_init c cr args = Inl (AttributeError ''LSTM'')"
  by (simp add: AggregationLayer_init_def lookup_attr_def nn_Module_attrs_def)

text \<open>
  C6, as the code has it. The matching layer is a stub: its constructor stores nothing
  and its forward pass takes no input and returns \<open>None\<close>. It computes no similarity
  and no attention, so it defines no fallback value; given any input it raises
  TypeError.
\<close>

theorem MatchingLayer_is_stub:
  "MatchingLayer_forward (MatchingLayer_init args) [] = Inr VNone \<and>
   (\<exists>msg. MatchingLayer_forward (MatchingLayer_init args) (x # xs) = Inl (TypeError msg))"
  by (simp add: MatchingLayer_forward_def)

text \<open>
  C6 as stated fails: given two zero vectors the matching layer yields no similarity
  \<open>0\<close> but a TypeError, and called without input it yields \<open>None\<close>, not \<open>0\<close>.
\<close>

theorem MatchingLayer_zero_vector_counterexample:
  "MatchingLayer_forward (MatchingLayer_init (Object []))
     [\<lparr>shape = [2], elems = [0, 0]\<rparr>, \<lparr>shape = [2], elems = [0, 0]\<rparr>]
     = Inl (TypeError ''forward() takes 1 positional argument but more were given'') \<and>
   MatchingLayer_forward (MatchingLayer_init (Object [])) [] \<noteq> Inr (VReal 0)"
  by (simp add: MatchingLayer_forward_def)

subsection \<open>The character encoder\<close>

lemma concat_nth_block:
  "\<forall>r \<in> set rows. length r = d \<Longrightarrow> k < length rows \<Longrightarrow>
   take d (drop (k * d) (concat rows)) = rows ! k"
proof (induction rows arbitrary: k)
  case Nil
  then show ?case by simp
next
  case (Cons r rows)
  show ?case
  proof (cases k)
    case 0
    with Cons.prems show ?thesis by simp
  next
    case (Suc j)
    with Cons.prems have "take d (drop (j * d) (concat rows)) = rows ! j"
      by (intro Cons.IH) auto
    with Suc Cons.prems show ?thesis by (simp add: add.commute)
  qed
qed

lemma length_concat_const:
  "\<forall>r \<in> set rows. length r = d \<Longrightarrow> length (concat rows) = length rows * d"
  by (induction rows) auto

lemma lstm_final_keeps_size:
  assumes "cell_keeps_size c h"
  shows "length (fst s) = h \<Longrightarrow> length (snd s) = h \<Longrightarrow>
   length (fst (lstm_final c s xs)) = h \<and> length (snd (lstm_final c s xs)) = h"
proof (induction xs arbitrary: s)
  case Nil
  then show ?case by (simp add: lstm_final_def)
next
  case (Cons x xs)
  from assms Cons.prems have "length (fst (c x s)) = h \<and> length (snd (c x s)) = h"
    unfolding cell_keeps_size_def by blast
  then have "length (fst (lstm_final c (c x s) xs)) = h \<and>
             length (snd (lstm_final c (c x s) xs)) = h"
    using Cons.IH by blast
  then show ?case by (simp add: lstm_final_def)
qed

lemma view_known2:
  assumes "length (elems t) = n * w"
  shows "view t [int n, int w] = Inr (t\<lparr>shape := [n, w]\<rparr>)"
proof -
  have "int n \<noteq> -1" "int w \<noteq> -1" "\<not> int n < -1" "\<not> int w < -1"
    by linarith+
  then show ?thesis
    using assms by (simp add: view_def Let_def)
qed

lemma view_infer3:
  assumes "length xs = b * s * h" "0 < s" "0 < h"
  shows "view \<lparr>shape = sh, elems = xs\<rparr> [-1, int s, int h] = Inr \<lparr>shape = [b, s, h], elems = xs\<rparr>"
proof -
  have "b * s * h mod (s * h) = 0" "b * s * h div (s * h) = b" "s * h \<noteq> 0"
    using assms(2,3) by (simp_all add: mult.assoc)
  moreover have "int s \<noteq> -1" "int h \<noteq> -1" "\<not> int s < -1" "\<not> int h < -1"
    by linarith+
  ultimately show ?thesis
    unfolding view_def Let_def by (simp add: assms(1))
qed

lemma nn_Embedding_facts:
  assumes "nn_Embedding init n d pad = Inr e"
  shows "num_embeddings e = n" "embedding_dim e = d" "padding_idx e = pad"
    "length (weight e) = n" "\<And>i. i < n \<Longrightarrow> length (weight e ! i) = d"
    "\<And>p. pad = Some p \<Longrightarrow> p < n \<and> weight e ! p = replicate d 0"
  using assms by (auto simp: nn_Embedding_def split: if_splits option.splits)

lemma bindE_eq_Inr: "bindE m f = Inr y \<longleftrightarrow> (\<exists>x. m = Inr x \<and> f x = Inr y)"
  by (cases m) auto

lemma CharacterRepresentationEncoder_init_facts:
  assumes "CharacterRepresentationEncoder_init init c args = Inr enc"
  shows "\<exists>v d i h. get_nat args ''char_vocab_size'' = Inr v \<and> get_nat args ''char_dim'' = Inr d \<and>
           get_nat args ''char_input_size'' = Inr i \<and> get_nat args ''char_hidden_size'' = Inr h \<and>
           nn_Embedding init v d (Some 0) = Inr (ce_char_encoder enc) \<and>
           ce_lstm enc = nn_LSTM c c i h False \<and> ce_args enc = args"
  using assms unfolding CharacterRepresentationEncoder_init_def
  by (auto simp: bindE_eq_Inr)

lemma embedding_grad_padding_row:
  "padding_idx e = Some p \<Longrightarrow> p < num_embeddings e \<Longrightarrow>
   embedding_weight_grad e ids gs ! p = replicate (embedding_dim e) 0"
  by (simp add: embedding_weight_grad_def)

text \<open>
  The forward pass of an encoder, were one constructed. For a character-id tensor of
  shape \<open>(b, s, w)\<close> with \<open>s, w > 0\<close> whose ids lie in the character vocabulary, an
  encoder built from a configuration that has both \<open>char_dim\<close> and \<open>char_input_size\<close>,
  with the same value, and a recurrent cell that keeps the hidden size: the forward pass
  returns a tensor of shape \<open>(b, s, char_hidden_size)\<close> whose vector for word \<open>k\<close> is
  the final hidden state of the forward-only encoder run from the zero state over the
  embeddings of that word's \<open>w\<close> characters; the embedding has padding id \<open>0\<close>, whose
  row is the zero vector and receives a zero gradient. Neither driver builds such a
  configuration, as shown below.
\<close>

lemma CharacterRepresentationEncoder_forward_spec:
  assumes init: "CharacterRepresentationEncoder_init init c args = Inr enc"
    and dims: "get_nat args ''char_dim'' = get_nat args ''char_input_size''"
    and shape: "shape chars = [b, s, w]"
    and len: "length (elems chars) = b * s * w"
    and ids: "\<forall>i \<in> set (elems chars). 0 \<le> i \<and> i < int (num_embeddings (ce_char_encoder enc))"
    and pos: "0 < s" "0 < w" "0 < lstm_hidden_size (ce_lstm enc)"
    and cell: "cell_keeps_size c (lstm_hidden_size (ce_lstm enc))"
  shows "\<exists>out. CharacterRepresentationEncoder_forward enc chars = Inr out \<and>
           shape out = [b, s, lstm_hidden_size (ce_lstm enc)] \<and>
           length (elems out) = b * s * lstm_hidden_size (ce_lstm enc) \<and>
           elems out =
             concat (map (\<lambda>k. fst (lstm_final c
                                 (replicate (lstm_hidden_size (ce_lstm enc)) 0,
                                  replicate (lstm_hidden_size (ce_lstm enc)) 0)
                                 (map (\<lambda>t. weight (ce_char_encoder enc) ! nat (elems chars ! (k * w + t)))
                                      [0..<w])))
                         [0..<b * s]) \<and>
           \<not> lstm_bidirectional (ce_lstm enc) \<and>
           padding_idx (ce_char_encoder enc) = Some 0 \<and>
           weight (ce_char_encoder enc) ! 0 = replicate (embedding_dim (ce_char_encoder enc)) 0 \<and>
           embedding_weight_grad (ce_char_encoder enc) idxs gs ! 0
             = replicate (embedding_dim (ce_char_encoder enc)) 0"
proof -
  from CharacterRepresentationEncoder_init_facts [OF init] obtain v d i h where
    gd: "get_nat args ''char_dim'' = Inr d" and gi: "get_nat args ''char_input_size'' = Inr i"
    and gh: "get_nat args ''char_hidden_size'' = Inr h"
    and emb: "nn_Embedding init v d (Some 0) = Inr (ce_char_encoder enc)"
    and l: "ce_lstm enc = nn_LSTM c c i h False" and a: "ce_args enc = args"
    by blast
  let ?E = "ce_char_encoder enc"
  have id: "i = d" using dims gd gi by simp
  have hh: "lstm_hidden_size (ce_lstm enc) = h" "lstm_input_size (ce_lstm enc) = d"
    "lstm_cell (ce_lstm enc) = c" "\<not> lstm_bidirectional (ce_lstm enc)"
    by (simp_all add: l nn_LSTM_def id)
  note E = nn_Embedding_facts [OF emb]
  have hpos: "0 < h" using pos hh by simp
  have ck: "cell_keeps_size c h" using cell hh by simp
  let ?z = "(replicate h (0::real), replicate h (0::real))"
  let ?ids = "elems chars"
  let ?emb = "concat (map (\<lambda>i. weight ?E ! nat i) ?ids)"
  \<comment> \<open>the reshape to one row per word\<close>
  have v1: "view chars [int (b * s), int w] = Inr (chars\<lparr>shape := [b * s, w]\<rparr>)"
    using len by (intro view_known2) simp
  \<comment> \<open>the lookup\<close>
  have e1: "embedding_forward ?E (chars\<lparr>shape := [b * s, w]\<rparr>)
      = Inr \<lparr>shape = [b * s, w, d], elems = ?emb\<rparr>"
    using ids by (simp add: embedding_forward_def E)
  have rows: "\<forall>r \<in> set (map (\<lambda>i. weight ?E ! nat i) ?ids). length r = d"
  proof
    fix r assume "r \<in> set (map (\<lambda>i. weight ?E ! nat i) ?ids)"
    then obtain j where j: "j \<in> set ?ids" and r: "r = weight ?E ! nat j" by auto
    from ids j have "nat j < v" by (auto simp: E)
    with r show "length r = d" by (simp add: E)
  qed
  have vec: "take d (drop ((k * w + t) * d) ?emb) = weight ?E ! nat (?ids ! (k * w + t))"
    if "k < b * s" "t < w" for k t
  proof -
    have "k * w + t < (b * s) * w"
    proof -
      have "k * w + t < k * w + w" using that by simp
      also have "\<dots> = (Suc k) * w" by simp
      also have "\<dots> \<le> (b * s) * w" using that by (intro mult_le_mono1) simp
      finally show ?thesis .
    qed
    then have lt: "k * w + t < length ?ids" using len by (simp add: mult.assoc)
    with concat_nth_block [OF rows, of "k * w + t"] show ?thesis by simp
  qed
  \<comment> \<open>the recurrent encoder, one run per word\<close>
  let ?seqs = "map (\<lambda>k. map (\<lambda>t. weight ?E ! nat (?ids ! (k * w + t))) [0..<w]) [0..<b * s]"
  let ?raw = "map (\<lambda>k. map (\<lambda>t. take d (drop ((k * w + t) * d) ?emb)) [0..<w]) [0..<b * s]"
  have seqs: "?raw = ?seqs"
    using vec by simp
  let ?hn = "concat (map fst (map (lstm_final c ?z) ?seqs))"
  have "\<exists>out cn. lstm_forward (ce_lstm enc) \<lparr>shape = [b * s, w, d], elems = ?emb\<rparr>
      = Inr (out, \<lparr>shape = [1, b * s, h],
                   elems = concat (map fst (map (lstm_final c ?z) ?raw))\<rparr>, cn)"
    using pos(2) by (simp add: lstm_forward_def hh Let_def comp_def)
  then obtain out cn where l1: "lstm_forward (ce_lstm enc) \<lparr>shape = [b * s, w, d], elems = ?emb\<rparr>
      = Inr (out, \<lparr>shape = [1, b * s, h], elems = ?hn\<rparr>, cn)"
    unfolding seqs by blast
  have fin: "\<forall>r \<in> set (map fst (map (lstm_final c ?z) ?seqs)). length r = h"
    using lstm_final_keeps_size [OF ck, of ?z] by auto
  have hn_len: "length ?hn = b * s * h"
    using length_concat_const [OF fin] by simp
  \<comment> \<open>the reshape back\<close>
  have v2: "view \<lparr>shape = [1, b * s, h], elems = ?hn\<rparr> [-1, int s, int h]
      = Inr \<lparr>shape = [b, s, h], elems = ?hn\<rparr>"
    using hn_len pos(1) hpos by (rule view_infer3)
  have fwd: "CharacterRepresentationEncoder_forward enc chars = Inr \<lparr>shape = [b, s, h], elems = ?hn\<rparr>"
    unfolding CharacterRepresentationEncoder_forward_def
    by (simp only: size3_def shape list.case bindE_Inr prod.case v1 e1 l1 a gh v2)
  have hn_eq: "?hn = concat (map (\<lambda>k. fst (lstm_final c ?z
        (map (\<lambda>t. weight ?E ! nat (?ids ! (k * w + t))) [0..<w]))) [0..<b * s])"
    by (simp add: comp_def)
  have pad: "padding_idx ?E = Some 0" "weight ?E ! 0 = replicate d 0" "0 < v"
    using E(3) E(6) [of 0] by simp_all
  have g: "embedding_weight_grad ?E idxs gs ! 0 = replicate d 0"
    using embedding_grad_padding_row [of ?E 0] pad E by simp
  show ?thesis
    unfolding hh E(2)
    using fwd hn_len hn_eq pad g hh(4) by simp
qed


lemma CharacterRepresentationEncoder_forward_spec_instance:
  "CharacterRepresentationEncoder_init (\<lambda>i j. 1) (\<lambda>x s. s)
     (Object [(''char_vocab_size'', VInt 3), (''char_dim'', VInt 1),
              (''char_input_size'', VInt 1), (''char_hidden_size'', VInt 1)])
     = Inr \<lparr>ce_args = Object [(''char_vocab_size'', VInt 3), (''char_dim'', VInt 1),
                               (''char_input_size'', VInt 1), (''char_hidden_size'', VInt 1)],
             ce_char_encoder = \<lparr>num_embeddings = 3, embedding_dim = 1, padding_idx = Some 0,
                                 weight = [[0], [1], [1]], weight_requires_grad = True\<rparr>,
             ce_lstm = nn_LSTM (\<lambda>x s. s) (\<lambda>x s. s) 1 1 False\<rparr> \<and>
   cell_keeps_size (\<lambda>x s. s) 1 \<and>
   (\<exists>out. CharacterRepresentationEncoder_forward
             \<lparr>ce_args = Object [(''char_vocab_size'', VInt 3), (''char_dim'', VInt 1),
                                (''char_input_size'', VInt 1), (''char_hidden_size'', VInt 1)],
              ce_char_encoder = \<lparr>num_embeddings = 3, embedding_dim = 1, padding_idx = Some 0,
                                  weight = [[0], [1], [1]], weight_requires_grad = True\<rparr>,
              ce_lstm = nn_LSTM (\<lambda>x s. s) (\<lambda>x s. s) 1 1 False\<rparr>
             \<lparr>shape = [1, 1, 2], elems = [0, 2]\<rparr> = Inr out \<and>
          shape out = [1, 1, 1] \<and> length (elems out) = 1)"
proof -
  let ?args = "Object [(''char_vocab_size'', VInt 3), (''char_dim'', VInt 1),
                       (''char_input_size'', VInt 1), (''char_hidden_size'', VInt 1)]"
  let ?enc = "\<lparr>ce_args = ?args,
               ce_char_encoder = \<lparr>num_embeddings = 3, embedding_dim = 1, padding_idx = Some 0,
                                   weight = [[0], [1], [1]], weight_requires_grad = True\<rparr>,
               ce_lstm = nn_LSTM (\<lambda>x s. s) (\<lambda>x s. s) 1 1 False\<rparr>"
  let ?chars = "\<lparr>shape = [1, 1, 2], elems = [0, 2 :: int]\<rparr>"
  have up: "[0..<3] = [0, 1, 2]" "[0..<1] = [0]"
    by (simp_all add: upt_rec)
  have init: "CharacterRepresentationEncoder_init (\<lambda>i j. 1) (\<lambda>x s. s) ?args = Inr ?enc"
    by (simp add: CharacterRepresentationEncoder_init_def get_nat_def getattr_def
        nn_Embedding_def up)
  have dims: "get_nat ?args ''char_dim'' = get_nat ?args ''char_input_size''"
    by (simp add: get_nat_def getattr_def)
  have cell: "cell_keeps_size (\<lambda>x s. s) (lstm_hidden_size (ce_lstm ?enc))"
    by (simp add: cell_keeps_size_def)
  have h1: "lstm_hidden_size (ce_lstm ?enc) = 1"
    by (simp add: nn_LSTM_def)
  from CharacterRepresentationEncoder_forward_spec
         [OF init dims, of ?chars 1 1 2, OF _ _ _ _ _ _ cell]
  have "\<exists>out. CharacterRepresentationEncoder_forward ?enc ?chars = Inr out \<and>
          shape out = [1, 1, 1] \<and> length (elems out) = 1"
    unfolding h1 by fastforce
  with init cell show ?thesis
    unfolding h1 by blast
qed

subsection \<open>The configurations the drivers build\<close>

lemma extend_args_locals:
  "extend_args now (locals_of a) model_data =
     Inr (Object
       [(''batch_size'', a_batch_size a), (''char_dim'', a_char_dim a),
        (''char_hidden_size'', a_char_hidden_size a), (''data_type'', a_data_type a),
        (''dropout'', a_dropout a), (''epoch'', a_epoch a), (''gpu'', a_gpu a),
        (''hidden_size'', a_hidden_size a), (''lr'', a_lr a),
        (''num_perspectives'', a_num_perspectives a),
        (''print_interval'', a_print_interval a), (''word_dim'', a_word_dim a),
        (''char_vocab_size'', VInt (int (md_char_vocab model_data))),
        (''word_vocab_size'', VInt (int (md_word_vocab model_data))),
        (''class_size'', VInt (int (md_label_vocab model_data))),
        (''max_word_len'', VInt (int (md_max_word_len model_data))),
        (''args'', VStr now)])"
  by (simp add: extend_args_def locals_of_def setitem_def namedtuple_of_def)

lemma extend_args_facts:
  "\<exists>args. extend_args now (locals_of a) model_data = Inr args \<and>
     getattr args ''args'' = Inr (VStr now) \<and>
     getattr args ''data_type'' = Inr (a_data_type a) \<and>
     getattr args ''gpu'' = Inr (a_gpu a) \<and>
     getattr args ''model_time'' = Inl (AttributeError ''model_time'') \<and>
     getattr args ''char_input_size'' = Inl (AttributeError ''char_input_size'') \<and>
     getattr args ''char_vocab_size'' = Inr (VInt (int (md_char_vocab model_data))) \<and>
     getattr args ''char_dim'' = Inr (a_char_dim a)"
  by (simp add: extend_args_locals getattr_def)

lemma char_encoder_init_no_input_size:
  assumes "getattr args ''char_input_size'' = Inl (AttributeError ''char_input_size'')"
  shows "\<exists>e. CharacterRepresentationEncoder_init init c args = Inl e"
  using assms
  by (auto simp: CharacterRepresentationEncoder_init_def get_nat_def bindE_def split: sum.splits)


lemma test_main_args_facts:
  "getattr (test_main_args actual device data) ''char_dim'' = Inl (AttributeError ''char_dim'') \<and>
   getattr (test_main_args actual device data) ''char_vocab_size''
     = Inr (VInt (int (md_char_vocab data))) \<and>
   getattr (test_main_args actual device data) ''char_input_size''
     = Inr (actual ''char_input_size'')"
  by (simp add: test_main_args_def test_main_params_def getattr_def)

text \<open>
  C8. The constructor of the character encoder reads the width of a character embedding
  under two names: \<open>char_dim\<close> for the embedding table and \<open>char_input_size\<close> for the
  input of the recurrent encoder. The configuration the training driver builds has
  \<open>char_dim\<close> and no \<open>char_input_size\<close>; the one the evaluation driver builds has
  \<open>char_input_size\<close> and no \<open>char_dim\<close>. With either the constructor raises, whatever
  the arguments of the driver and the dataset, so no encoder exists whose forward pass
  could return the \<open>(batch, sequence length, hidden size)\<close> tensor. With the defaults
  of the training driver the error is the AttributeError for \<open>char_input_size\<close>, with
  the evaluation driver's configuration always the one for \<open>char_dim\<close>.
\<close>

theorem CharacterRepresentationEncoder_init_raises:
  "(\<exists>args. extend_args now (locals_of a) data = Inr args \<and>
      getattr args ''char_dim'' = Inr (a_char_dim a) \<and>
      getattr args ''char_input_size'' = Inl (AttributeError ''char_input_size'') \<and>
      (\<exists>e. CharacterRepresentationEncoder_init init c args = Inl e)) \<and>
   (\<exists>args. extend_args now (locals_of main_defaults) toy_data = Inr args \<and>
      CharacterRepresentationEncoder_init init c args = Inl (AttributeError ''char_input_size'')) \<and>
   getattr (test_main_args actual device data') ''char_input_size''
     = Inr (actual ''char_input_size'') \<and>
   CharacterRepresentationEncoder_init init c (test_main_args actual device data')
     = Inl (AttributeError ''char_dim'')"
proof -
  from extend_args_facts [of now a data] obtain args where
    e: "extend_args now (locals_of a) data = Inr args"
    and d: "getattr args ''char_dim'' = Inr (a_char_dim a)"
    and i: "getattr args ''char_input_size'' = Inl (AttributeError ''char_input_size'')"
    by blast
  have 1: "\<exists>args. extend_args now (locals_of a) data = Inr args \<and>
      getattr args ''char_dim'' = Inr (a_char_dim a) \<and>
      getattr args ''char_input_size'' = Inl (AttributeError ''char_input_size'') \<and>
      (\<exists>e. CharacterRepresentationEncoder_init init c args = Inl e)"
    using e d i char_encoder_init_no_input_size [OF i, of init c] by blast
  have 2: "\<exists>args. extend_args now (locals_of main_defaults) toy_data = Inr args \<and>
      CharacterRepresentationEncoder_init init c args = Inl (AttributeError ''char_input_size'')"
    by (simp add: extend_args_locals main_defaults_def toy_data_def
        CharacterRepresentationEncoder_init_def get_nat_def getattr_def nn_Embedding_def)
  have 3: "CharacterRepresentationEncoder_init init c (test_main_args actual device data')
     = Inl (AttributeError ''char_dim'')"
    using test_main_args_facts [of actual device data']
    by (simp add: CharacterRepresentationEncoder_init_def get_nat_def)
  from 1 2 3 test_main_args_facts [of actual device data'] show ?thesis by blast
qed


subsection \<open>The evaluation function\<close>











subsection \<open>The training driver\<close>

lemma locals_data_type:
  "getattr (locals_of a) ''data_type'' = Inl (AttributeError ''data_type'')"
  by (simp add: locals_of_def getattr_def dict_attrs_def)

lemma main_raises:
  "main fw SNLI Quora py_str now a s = (s, Inl (AttributeError ''data_type''))"
  by (simp add: main_def load_data_def locals_data_type Let_def split: prod.splits)

text \<open>
  C3. \<open>main\<close> reads \<open>data_type\<close> as an attribute of the dictionary that
  \<open>locals()\<close> returned: for every value of \<open>data_type\<close>, supported or not, it raises AttributeError
  on line 30 and leaves the file system and the store as they were; the RuntimeError of
  line 37 is never reached. Read from an object with that attribute, as the evaluation
  driver does, the same lines raise the RuntimeError for an unsupported name.
\<close>

theorem main_data_type_raises_AttributeError:
  "main fw SNLI Quora py_str now a s = (s, Inl (AttributeError ''data_type'')) \<and>
   load_data SNLI Quora (Object [(''data_type'', VStr ''MNLI'')])
     = Inl (RuntimeError ''Data source other than SNLI or Quora was provided.'')"
  using main_raises [of fw SNLI Quora py_str now a s]
  by (simp add: load_data_def getattr_def)

lemma train_setup_no_model_time:
  assumes "getattr args ''model_time'' = Inl (AttributeError ''model_time'')"
    and "getattr args ''gpu'' = Inr g"
  shows "train fw args data w0 =
     (w0, Inl (case fw_BiMPM fw args data of
                 Inl e \<Rightarrow> e
               | Inr m \<Rightarrow>
                   (case (if truthy g then fw_cuda fw g m else Inr m) of
                      Inl e \<Rightarrow> e
                    | Inr m' \<Rightarrow>
                        (case get_real args ''lr'' of
                           Inl e \<Rightarrow> e
                         | Inr lr \<Rightarrow>
                             (case optim_Adam (parameters_requiring_grad m') lr of
                                Inl e \<Rightarrow> e
                              | Inr opt \<Rightarrow> AttributeError ''model_time'')))))"
  using assms by (simp add: train_def train_setup_def bindE_def split: sum.splits)

text \<open>
  C1. \<open>main\<close> stores the timestamp under the key \<open>args\<close>, and \<open>train\<close> reads
  \<open>args.model_time\<close> on line 68, before the loop. For every configuration lines 40-46
  build, \<open>train\<close> raises and returns no model: the error is the one of the model's
  constructor, of its move to the device, of the learning rate or of the optimizer if
  one of them raises, and the AttributeError for \<open>model_time\<close> otherwise; the store is
  as it was. Moreover, a run
  in which no validation improved on the initial \<open>0\<close> leaves \<open>best_model\<close> unassigned,
  and the function ends in UnboundLocalError.
\<close>

theorem train_raises_for_main_args:
  "(\<exists>args. extend_args now (locals_of a) data = Inr args \<and>
      getattr args ''args'' = Inr (VStr now) \<and>
      getattr args ''model_time'' = Inl (AttributeError ''model_time'') \<and>
      train fw args data w0 =
        (w0, Inl (case fw_BiMPM fw args data of
                    Inl e \<Rightarrow> e
                  | Inr m \<Rightarrow>
                      (case (if truthy (a_gpu a) then fw_cuda fw (a_gpu a) m else Inr m) of
                         Inl e \<Rightarrow> e
                       | Inr m' \<Rightarrow>
                           (case get_real args ''lr'' of
                              Inl e \<Rightarrow> e
                            | Inr lr \<Rightarrow>
                                (case optim_Adam (parameters_requiring_grad m') lr of
                                   Inl e \<Rightarrow> e
                                 | Inr opt \<Rightarrow> AttributeError ''model_time'')))))) \<and>
   train_finish fw (st\<lparr>ts_best_model := None\<rparr>)
     = (ts_world st, Inl (UnboundLocalError ''best_model''))"
proof -
  from extend_args_facts [of now a data] obtain args where
    e: "extend_args now (locals_of a) data = Inr args"
    and n: "getattr args ''args'' = Inr (VStr now)"
    and g: "getattr args ''gpu'' = Inr (a_gpu a)"
    and t: "getattr args ''model_time'' = Inl (AttributeError ''model_time'')"
    by blast
  have f: "train_finish fw (st\<lparr>ts_best_model := None\<rparr>)
     = (ts_world st, Inl (UnboundLocalError ''best_model''))"
    by (simp add: train_finish_def)
  from train_setup_no_model_time [OF t g, of fw data w0] e n t f
  show ?thesis by blast
qed

lemma save_best_no_model_time:
  assumes "getattr args ''model_time'' = Inl (AttributeError ''model_time'')"
    and "getattr args ''data_type'' = Inr dt"
  shows "save_best py_str args best fs =
     (if path_exists fs ''saved_models'' then (fs, Inl (AttributeError ''model_time''))
      else if path_exists fs ''save_models'' then (fs, Inl (FileExistsError ''save_models''))
      else (fs\<lparr>fs_dirs := fs_dirs fs @ [''save_models'']\<rparr>, Inl (AttributeError ''model_time'')))"
  using assms by (simp add: save_best_def makedirs_def Let_def)

text \<open>
  C10, as the code has it. \<open>main\<close> never saves a model: for every input it raises
  AttributeError for \<open>data_type\<close> on line 30, with the file system untouched, so that
  the lines that save are not reached. Those lines, run on the configuration that lines
  40-46 build (the timestamp under the key \<open>args\<close>, no field \<open>model_time\<close>), write no
  file: with \<open>saved_models\<close> present they raise AttributeError for \<open>model_time\<close>; with
  \<open>saved_models\<close> absent they create \<open>save_models\<close> and raise the same AttributeError
  while building the path, before any write is attempted, or raise FileExistsError if
  \<open>save_models\<close> is already there.
\<close>

theorem main_never_saves:
  "main fw SNLI Quora py_str now a (fs, w) = ((fs, w), Inl (AttributeError ''data_type'')) \<and>
   (\<exists>args. extend_args now (locals_of a) model_data = Inr args \<and>
      getattr args ''args'' = Inr (VStr now) \<and>
      getattr args ''model_time'' = Inl (AttributeError ''model_time'') \<and>
      save_best py_str args best fs =
        (if path_exists fs ''saved_models'' then (fs, Inl (AttributeError ''model_time''))
         else if path_exists fs ''save_models'' then (fs, Inl (FileExistsError ''save_models''))
         else (fs\<lparr>fs_dirs := fs_dirs fs @ [''save_models'']\<rparr>,
               Inl (AttributeError ''model_time''))))"
proof -
  from extend_args_facts [of now a model_data] obtain args where
    e: "extend_args now (locals_of a) model_data = Inr args"
    and n: "getattr args ''args'' = Inr (VStr now)"
    and d: "getattr args ''data_type'' = Inr (a_data_type a)"
    and t: "getattr args ''model_time'' = Inl (AttributeError ''model_time'')"
    by blast
  from save_best_no_model_time [OF t d, of py_str best fs] e n t
    main_raises [of fw SNLI Quora py_str now a "(fs, w)"]
  show ?thesis by blast
qed

text \<open>
  C10 as stated fails: started with no directory \<open>saved_models\<close>, \<open>main\<close> creates no
  directory \<open>save_models\<close>, and the error it raises is the one for \<open>data_type\<close>, not
  for \<open>model_time\<close>.
\<close>

theorem main_creates_no_directory_counterexample:
  "\<not> path_exists \<lparr>fs_dirs = [], fs_files = []\<rparr> ''saved_models'' \<and>
   main toy_framework (\<lambda>args. Inr toy_data) (\<lambda>args. Inr toy_data) (\<lambda>v. ''x'') ''12:00:00''
     main_defaults (\<lparr>fs_dirs = [], fs_files = []\<rparr>, toy_world)
   = ((\<lparr>fs_dirs = [], fs_files = []\<rparr>, toy_world), Inl (AttributeError ''data_type''))"
  by (simp add: main_raises path_exists_def)

end
